theory Spec2Isabelle
  imports Main "HOL-Library.Option_ord"
begin

section \<open>Exceptions\<close>

text \<open>
  Every \<^verbatim>\<open>raise\<close> of \<^verbatim>\<open>main.py\<close> and every exception of a library call it makes is a
  value. \<open>HTTPException c\<close> is the handlers' own \<^verbatim>\<open>HTTPException(status_code=c)\<close>; the
  other constructors are exceptions that no handler catches (the framework answers them
  with status 500).
\<close>

datatype error =
    HTTPException nat
  | ValueError
  | AttributeError
  | TypeError
  | IndexError
  | InvalidId
  | ValidationError

section \<open>Datetime values\<close>

text \<open>
  A Python \<^verbatim>\<open>datetime\<close>: the wall-clock fields and \<^verbatim>\<open>tzinfo\<close>, which is \<open>None\<close> for a
  naive value and \<open>Some off\<close> for a value with the fixed UTC offset of \<open>off\<close>
  microseconds.
\<close>

record datetime =
  year :: int
  month :: int
  day :: int
  hour :: int
  minute :: int
  second :: int
  microsecond :: int
  tzinfo :: "int option"

definition is_leap :: "int \<Rightarrow> bool" where
  "is_leap y \<longleftrightarrow> y mod 4 = 0 \<and> (y mod 100 \<noteq> 0 \<or> y mod 400 = 0)"

definition days_in_month :: "int \<Rightarrow> int \<Rightarrow> int" where
  "days_in_month y m =
     (if m = 2 then (if is_leap y then 29 else 28)
      else if m = 4 \<or> m = 6 \<or> m = 9 \<or> m = 11 then 30 else 31)"

definition days_before_year :: "int \<Rightarrow> int" where
  "days_before_year y =
     (let y1 = y - 1 in y1 * 365 + y1 div 4 - y1 div 100 + y1 div 400)"

definition days_before_month :: "int \<Rightarrow> int \<Rightarrow> int" where
  "days_before_month y m =
     (if m = 1 then 0 else if m = 2 then 31 else
      (if is_leap y then 1 else 0) +
      (if m = 3 then 59 else if m = 4 then 90 else if m = 5 then 120
       else if m = 6 then 151 else if m = 7 then 181 else if m = 8 then 212
       else if m = 9 then 243 else if m = 10 then 273 else if m = 11 then 304
       else 334))"

definition ymd2ord :: "int \<Rightarrow> int \<Rightarrow> int \<Rightarrow> int" where
  "ymd2ord y m d = days_before_year y + days_before_month y m + d"

text \<open>
  The field ranges the \<^verbatim>\<open>datetime\<close> constructor accepts (it raises \<^verbatim>\<open>ValueError\<close>
  outside them).
\<close>

definition valid_date :: "int \<Rightarrow> int \<Rightarrow> int \<Rightarrow> bool" where
  "valid_date y m d \<longleftrightarrow>
     1 \<le> y \<and> y \<le> 9999 \<and> 1 \<le> m \<and> m \<le> 12 \<and> 1 \<le> d \<and> d \<le> days_in_month y m"

definition valid_time :: "int \<Rightarrow> int \<Rightarrow> int \<Rightarrow> int \<Rightarrow> bool" where
  "valid_time h mi s us \<longleftrightarrow>
     0 \<le> h \<and> h \<le> 23 \<and> 0 \<le> mi \<and> mi \<le> 59 \<and> 0 \<le> s \<and> s \<le> 59 \<and> 0 \<le> us \<and> us \<le> 999999"

definition valid_datetime :: "datetime \<Rightarrow> bool" where
  "valid_datetime dt \<longleftrightarrow>
     valid_date (year dt) (month dt) (day dt) \<and>
     valid_time (hour dt) (minute dt) (second dt) (microsecond dt)"

text \<open>
  The point in time a value denotes, in microseconds: the wall clock minus the UTC offset.
  A value without offset is read as UTC. The document store compares datetimes as points
  in time.
\<close>

definition timestamp :: "datetime \<Rightarrow> int" where
  "timestamp dt =
     (((ymd2ord (year dt) (month dt) (day dt) * 24 + hour dt) * 60 + minute dt) * 60
        + second dt) * 1000000 + microsecond dt
     - (case tzinfo dt of None \<Rightarrow> 0 | Some off \<Rightarrow> off)"

text \<open>\<^verbatim>\<open>dt.replace(second=0, microsecond=0)\<close>: every other field, \<^verbatim>\<open>tzinfo\<close> too, is kept.\<close>

definition replace_second_microsecond :: "datetime \<Rightarrow> datetime" where
  "replace_second_microsecond dt = dt\<lparr>second := 0, microsecond := 0\<rparr>"

text \<open>
  \<^verbatim>\<open>to_utc_naive\<close>. The module imports the class (\<^verbatim>\<open>from datetime import datetime\<close>), so
  on the branch for a value with an offset the expression \<^verbatim>\<open>datetime.timezone\<close> is an
  attribute lookup on the class \<^verbatim>\<open>datetime.datetime\<close>, which has no such attribute: the
  branch raises \<^verbatim>\<open>AttributeError\<close> before any conversion. No handler calls this function.
\<close>

definition to_utc_naive :: "datetime \<Rightarrow> error + datetime" where
  "to_utc_naive dt = (if tzinfo dt \<noteq> None then Inl AttributeError else Inr dt)"

section \<open>Store keys\<close>

text \<open>
  \<^verbatim>\<open>bson.ObjectId\<close>: a key is written as 24 hexadecimal characters, in either case;
  \<^verbatim>\<open>ObjectId(s)\<close> raises \<^verbatim>\<open>InvalidId\<close> for any other string. Two spellings of the same
  digits are the same key, and \<^verbatim>\<open>str\<close> of a key is its lower-case spelling, so a key is
  kept as that spelling.
\<close>

type_synonym oid = string

definition is_hex_char :: "char \<Rightarrow> bool" where
  "is_hex_char c \<longleftrightarrow> c \<in> set ''0123456789abcdefABCDEF''"

definition lower_hex :: "char \<Rightarrow> char" where
  "lower_hex c =
     (if c = CHR ''A'' then CHR ''a'' else if c = CHR ''B'' then CHR ''b''
      else if c = CHR ''C'' then CHR ''c'' else if c = CHR ''D'' then CHR ''d''
      else if c = CHR ''E'' then CHR ''e'' else if c = CHR ''F'' then CHR ''f'' else c)"

definition ObjectId :: "string \<Rightarrow> error + oid" where
  "ObjectId s =
     (if length s = 24 \<and> list_all is_hex_char s then Inr (map lower_hex s)
      else Inl InvalidId)"

definition is_oid :: "string \<Rightarrow> bool" where
  "is_oid s \<longleftrightarrow> length s = 24 \<and> list_all (\<lambda>c. c \<in> set ''0123456789abcdef'') s"

section \<open>Documents and the collection\<close>

text \<open>
  A document of the \<^verbatim>\<open>appointment\<close> collection. \<open>doc_id\<close> is the key \<^verbatim>\<open>_id\<close> and
  \<open>doc_notes\<close> the field \<^verbatim>\<open>notes\<close>; every other field may hold \<^verbatim>\<open>null\<close> (\<open>None\<close>), since \<^verbatim>\<open>$set\<close> writes whatever the update
  payload carries. The collection is the list of its documents in insertion order, each
  kept as the handler passed it.
\<close>

record document =
  doc_id :: oid
  first_name :: "string option"
  last_name :: "string option"
  email :: "string option"
  phone :: "string option"
  datetime_iso :: "datetime option"
  location :: "string option"
  status :: "string option"
  doc_notes :: "string option"
  created_at :: "datetime option"
  updated_at :: "datetime option"

type_synonym collection = "document list"

text \<open>The query operators the handlers use.\<close>

definition datetime_iso_eq :: "datetime \<Rightarrow> document \<Rightarrow> bool" where
  \<comment> \<open>\<^verbatim>\<open>{"datetime_iso": dt}\<close>\<close>
  "datetime_iso_eq dt d =
     (case datetime_iso d of None \<Rightarrow> False | Some x \<Rightarrow> timestamp x = timestamp dt)"

definition status_ne :: "string \<Rightarrow> document \<Rightarrow> bool" where
  \<comment> \<open>\<^verbatim>\<open>{"status": {"$ne": s}}\<close>: a \<^verbatim>\<open>null\<close> status is not equal to \<open>s\<close>\<close>
  "status_ne s d \<longleftrightarrow> status d \<noteq> Some s"

definition find_one :: "(document \<Rightarrow> bool) \<Rightarrow> collection \<Rightarrow> document option" where
  "find_one q db = List.find q db"

fun find_one_and_update ::
  "oid \<Rightarrow> (document \<Rightarrow> document) \<Rightarrow> collection \<Rightarrow> document option \<times> collection" where
  \<comment> \<open>\<^verbatim>\<open>find_one_and_update({"_id": i}, {"$set": ...}, return_document=True)\<close>: the first
      document with the key is rewritten and returned as rewritten\<close>
  "find_one_and_update i f [] = (None, [])"
| "find_one_and_update i f (d # ds) =
     (if doc_id d = i then (Some (f d), f d # ds)
      else (case find_one_and_update i f ds of (r, ds') \<Rightarrow> (r, d # ds')))"

fun delete_one :: "oid \<Rightarrow> collection \<Rightarrow> nat \<times> collection" where
  \<comment> \<open>\<^verbatim>\<open>delete_one({"_id": i})\<close>: the new collection and \<^verbatim>\<open>deleted_count\<close>\<close>
  "delete_one i [] = (0, [])"
| "delete_one i (d # ds) =
     (if doc_id d = i then (1, ds)
      else (case delete_one i ds of (n, ds') \<Rightarrow> (n, d # ds')))"

section \<open>Request and response models\<close>

text \<open>
  \<^verbatim>\<open>AppointmentCreate\<close>, as the handler receives it, and the constraints the framework
  has checked on it before the handler runs. \<^verbatim>\<open>EmailStr\<close> is checked by a library; its
  test is the parameter \<open>is_email\<close>.
\<close>

record AppointmentCreate =
  c_first_name :: string
  c_last_name :: string
  c_email :: string
  c_phone :: string
  c_datetime_iso :: datetime
  c_location :: string
  c_notes :: "string option"

definition valid_AppointmentCreate :: "(string \<Rightarrow> bool) \<Rightarrow> AppointmentCreate \<Rightarrow> bool" where
  "valid_AppointmentCreate is_email p \<longleftrightarrow>
     1 \<le> length (c_first_name p) \<and> length (c_first_name p) \<le> 50 \<and>
     1 \<le> length (c_last_name p) \<and> length (c_last_name p) \<le> 50 \<and>
     is_email (c_email p) \<and>
     6 \<le> length (c_phone p) \<and> length (c_phone p) \<le> 25 \<and>
     (case c_notes p of None \<Rightarrow> True | Some n \<Rightarrow> length n \<le> 500)"

text \<open>
  \<^verbatim>\<open>AppointmentUpdate\<close>. \<^verbatim>\<open>model_dump(exclude_unset=True)\<close> keeps the fields the request
  body carried, also those it carried as \<^verbatim>\<open>null\<close>: \<open>Unset\<close> is a field the body did not
  have, \<open>Given None\<close> one it had as \<^verbatim>\<open>null\<close>, \<open>Given (Some v)\<close> one it had with a value.
\<close>

datatype 'a field = Unset | Given "'a option"

record AppointmentUpdate =
  u_first_name :: "string field"
  u_last_name :: "string field"
  u_email :: "string field"
  u_phone :: "string field"
  u_datetime_iso :: "datetime field"
  u_location :: "string field"
  u_status :: "string field"
  u_notes :: "string field"

text \<open>
  \<^verbatim>\<open>AppointmentOut\<close> and its validation of a document read from the collection
  (\<^verbatim>\<open>AppointmentOut(**d)\<close> after \<^verbatim>\<open>d["id"] = str(d.pop("_id"))\<close>): the required fields
  must hold a value, the email must pass \<^verbatim>\<open>EmailStr\<close>.
\<close>

record appointment_out =
  o_id :: string
  o_first_name :: string
  o_last_name :: string
  o_email :: string
  o_phone :: string
  o_datetime_iso :: datetime
  o_location :: string
  o_status :: string
  o_notes :: "string option"
  o_created_at :: "datetime option"
  o_updated_at :: "datetime option"

definition AppointmentOut :: "(string \<Rightarrow> bool) \<Rightarrow> document \<Rightarrow> error + appointment_out" where
  "AppointmentOut is_email d =
     (case (first_name d, last_name d, email d, phone d, datetime_iso d, location d, status d) of
        (Some fn, Some ln, Some em, Some ph, Some dt, Some loc, Some st) \<Rightarrow>
          if is_email em then
            Inr \<lparr>o_id = doc_id d, o_first_name = fn, o_last_name = ln, o_email = em,
                 o_phone = ph, o_datetime_iso = dt, o_location = loc, o_status = st,
                 o_notes = doc_notes d, o_created_at = created_at d, o_updated_at = updated_at d\<rparr>
          else Inl ValidationError
      | _ \<Rightarrow> Inl ValidationError)"

section \<open>The schema and the insert helper\<close>

text \<open>
  Modelled from the spec: \<^verbatim>\<open>schemas.Appointment\<close>, which \<^verbatim>\<open>main.py\<close> imports as
  \<^verbatim>\<open>AppointmentSchema\<close>, is not among the source files. The spec's data model gives its
  fields and constraints: names non-empty and of at most 50 characters, a syntactically
  valid email, a phone of 6 to 25 characters, notes of at most 500 characters, and a
  status that "defaults to booked on creation". \<open>schema_doc\<close> is the dictionary that
  \<^verbatim>\<open>model_dump()\<close> returns.
\<close>

record schema_doc =
  s_first_name :: string
  s_last_name :: string
  s_email :: string
  s_phone :: string
  s_datetime_iso :: datetime
  s_location :: string
  s_status :: string
  s_notes :: "string option"

definition AppointmentSchema ::
  "(string \<Rightarrow> bool) \<Rightarrow> string \<Rightarrow> string \<Rightarrow> string \<Rightarrow> string \<Rightarrow> datetime \<Rightarrow> string \<Rightarrow> string option
     \<Rightarrow> error + schema_doc" where
  "AppointmentSchema is_email fn ln em ph dt loc nt =
     (if 1 \<le> length fn \<and> length fn \<le> 50 \<and> 1 \<le> length ln \<and> length ln \<le> 50 \<and>
         is_email em \<and> 6 \<le> length ph \<and> length ph \<le> 25 \<and>
         (case nt of None \<Rightarrow> True | Some n \<Rightarrow> length n \<le> 500)
      then Inr \<lparr>s_first_name = fn, s_last_name = ln, s_email = em, s_phone = ph,
                s_datetime_iso = dt, s_location = loc, s_status = ''booked'', s_notes = nt\<rparr>
      else Inl ValidationError)"

text \<open>
  Modelled from the spec: \<^verbatim>\<open>database.create_document\<close> is not among the source files.
  The spec has the identifier "store-assigned, immutable, unique" and \<^verbatim>\<open>created_at\<close>,
  \<^verbatim>\<open>updated_at\<close> "set by the store layer on insert". The key the store assigns is the
  parameter \<open>new_id\<close>, the clock the parameter \<open>now\<close>; the result is the key as a string
  and the collection with the document appended.
\<close>

definition create_document :: "datetime \<Rightarrow> oid \<Rightarrow> collection \<Rightarrow> schema_doc \<Rightarrow> string \<times> collection" where
  "create_document now new_id db doc =
     (new_id,
      db @ [\<lparr>doc_id = new_id, first_name = Some (s_first_name doc),
              last_name = Some (s_last_name doc), email = Some (s_email doc),
              phone = Some (s_phone doc), datetime_iso = Some (s_datetime_iso doc),
              location = Some (s_location doc), status = Some (s_status doc),
              doc_notes = s_notes doc, created_at = Some now, updated_at = Some now\<rparr>])"

section \<open>The handlers\<close>

text \<open>
  Each handler takes the collection and returns its response, an exception or a value,
  together with the collection it leaves behind.
\<close>

definition create_appointment ::
  "(string \<Rightarrow> bool) \<Rightarrow> datetime \<Rightarrow> oid \<Rightarrow> collection \<Rightarrow> AppointmentCreate
     \<Rightarrow> (error + appointment_out) \<times> collection" where
  "create_appointment is_email now new_id db payload =
     (let dt = replace_second_microsecond (c_datetime_iso payload) in
      case find_one (\<lambda>d. datetime_iso_eq dt d \<and> status_ne ''canceled'' d) db of
        Some dup \<Rightarrow> (Inl (HTTPException 409), db)
      | None \<Rightarrow>
         (case AppointmentSchema is_email (c_first_name payload) (c_last_name payload)
                 (c_email payload) (c_phone payload) dt
                 (if c_location payload \<noteq> [] then c_location payload else ''Mourenx'')
                 (c_notes payload) of
            Inl e \<Rightarrow> (Inl e, db)
          | Inr doc \<Rightarrow>
             (case create_document now new_id db doc of
                (inserted_id, db') \<Rightarrow>
                  (case ObjectId inserted_id of
                     Inl e \<Rightarrow> (Inl e, db')
                   | Inr i \<Rightarrow>
                      (case find_one (\<lambda>d. doc_id d = i) db' of
                         None \<Rightarrow> (Inl AttributeError, db')
                       | Some saved \<Rightarrow> (AppointmentOut is_email saved, db'))))))"

text \<open>\<^verbatim>\<open>{"$set": updates}\<close> with \<^verbatim>\<open>updates["updated_at"] = datetime.utcnow()\<close>.\<close>

definition set_field :: "'a field \<Rightarrow> 'a option \<Rightarrow> 'a option" where
  "set_field f old = (case f of Unset \<Rightarrow> old | Given v \<Rightarrow> v)"

definition set_updates :: "AppointmentUpdate \<Rightarrow> datetime \<Rightarrow> document \<Rightarrow> document" where
  "set_updates u now d =
     d\<lparr>first_name := set_field (u_first_name u) (first_name d),
       last_name := set_field (u_last_name u) (last_name d),
       email := set_field (u_email u) (email d),
       phone := set_field (u_phone u) (phone d),
       datetime_iso := set_field (u_datetime_iso u) (datetime_iso d),
       location := set_field (u_location u) (location d),
       status := set_field (u_status u) (status d),
       doc_notes := set_field (u_notes u) (doc_notes d),
       updated_at := Some now\<rparr>"

definition update_appointment ::
  "(string \<Rightarrow> bool) \<Rightarrow> datetime \<Rightarrow> collection \<Rightarrow> string \<Rightarrow> AppointmentUpdate
     \<Rightarrow> (error + appointment_out) \<times> collection" where
  "update_appointment is_email now db appointment_id payload =
     (case ObjectId appointment_id of
        Inl e \<Rightarrow> (Inl (HTTPException 400), db)
      | Inr i \<Rightarrow>
         (case (case u_datetime_iso payload of
                  Given (Some dt) \<Rightarrow>
                    (let dt' = replace_second_microsecond dt in
                     case find_one (\<lambda>d. doc_id d \<noteq> i \<and> datetime_iso_eq dt' d \<and>
                                         status_ne ''canceled'' d) db of
                       Some dup \<Rightarrow> Inl (HTTPException 409)
                     | None \<Rightarrow> Inr (payload\<lparr>u_datetime_iso := Given (Some dt')\<rparr>))
                | _ \<Rightarrow> Inr payload) of
            Inl e \<Rightarrow> (Inl e, db)
          | Inr updates \<Rightarrow>
             (case find_one_and_update i (set_updates updates now) db of
                (None, db') \<Rightarrow> (Inl (HTTPException 404), db')
              | (Some res, db') \<Rightarrow> (AppointmentOut is_email res, db'))))"

definition delete_appointment :: "collection \<Rightarrow> string \<Rightarrow> (error + bool) \<times> collection" where
  "delete_appointment db appointment_id =
     (case ObjectId appointment_id of
        Inl e \<Rightarrow> (Inl (HTTPException 400), db)
      | Inr i \<Rightarrow>
         (case delete_one i db of
            (deleted_count, db') \<Rightarrow>
              if deleted_count = 0 then (Inl (HTTPException 404), db')
              else (Inr True, db')))"

section \<open>The admin gate\<close>

text \<open>
  \<^verbatim>\<open>str.lower\<close> on a header value, whose characters are code points below 256: the
  letters \<^verbatim>\<open>A\<close> to \<^verbatim>\<open>Z\<close> and the upper-case letters of Latin-1 (192 to 222 but for the
  multiplication sign 215) move up by 32, every other character stays.
\<close>

definition lower_char :: "char \<Rightarrow> char" where
  "lower_char c =
     (let n = (of_char c :: nat) in
      if (65 \<le> n \<and> n \<le> 90) \<or> (192 \<le> n \<and> n \<le> 222 \<and> n \<noteq> 215) then char_of (n + 32) else c)"

definition lower :: "string \<Rightarrow> string" where
  "lower s = map lower_char s"

definition startswith :: "string \<Rightarrow> string \<Rightarrow> bool" where
  "startswith s p \<longleftrightarrow> take (length p) s = p"

definition split_once :: "char \<Rightarrow> string \<Rightarrow> string list" where
  \<comment> \<open>\<^verbatim>\<open>s.split(c, 1)\<close>\<close>
  "split_once c s =
     (case dropWhile (\<lambda>x. x \<noteq> c) s of
        [] \<Rightarrow> [s]
      | _ # rest \<Rightarrow> [takeWhile (\<lambda>x. x \<noteq> c) s, rest])"

definition ADMIN_SECRET :: "string option \<Rightarrow> string" where
  \<comment> \<open>\<^verbatim>\<open>os.getenv("ADMIN_SECRET", "demo-admin-secret")\<close>, from the variable's value if set\<close>
  "ADMIN_SECRET env = (case env of None \<Rightarrow> ''demo-admin-secret'' | Some v \<Rightarrow> v)"

definition admin_required :: "string \<Rightarrow> string option \<Rightarrow> error + bool" where
  "admin_required secret authorization =
     (case authorization of
        None \<Rightarrow> Inl (HTTPException 401)
      | Some a \<Rightarrow>
          if a = [] \<or> \<not> startswith (lower a) ''bearer '' then Inl (HTTPException 401)
          else (case split_once CHR '' '' a of
                  [_, token] \<Rightarrow>
                    if token \<noteq> secret then Inl (HTTPException 403) else Inr True
                | _ \<Rightarrow> Inl IndexError))"

section \<open>Listing\<close>

text \<open>
  \<^verbatim>\<open>find().sort("datetime_iso", 1)\<close>: ascending by point in time, documents whose field is
  \<^verbatim>\<open>null\<close> first. The first document that \<^verbatim>\<open>AppointmentOut\<close> rejects aborts the request.
\<close>

definition datetime_iso_key :: "document \<Rightarrow> int option" where
  "datetime_iso_key d = map_option timestamp (datetime_iso d)"

fun out_all :: "(string \<Rightarrow> bool) \<Rightarrow> document list \<Rightarrow> error + appointment_out list" where
  "out_all is_email [] = Inr []"
| "out_all is_email (d # ds) =
     (case AppointmentOut is_email d of
        Inl e \<Rightarrow> Inl e
      | Inr x \<Rightarrow> (case out_all is_email ds of Inl e \<Rightarrow> Inl e | Inr xs \<Rightarrow> Inr (x # xs)))"

definition list_appointments :: "(string \<Rightarrow> bool) \<Rightarrow> collection \<Rightarrow> error + appointment_out list" where
  "list_appointments is_email db = out_all is_email (sort_key datetime_iso_key db)"

section \<open>The gated endpoints\<close>

text \<open>
  \<^verbatim>\<open>Depends(admin_required)\<close>: the gate runs first; when it raises, the handler does not
  run and the collection is as it was.
\<close>

definition list_endpoint ::
  "string \<Rightarrow> (string \<Rightarrow> bool) \<Rightarrow> collection \<Rightarrow> string option \<Rightarrow> error + appointment_out list" where
  "list_endpoint secret is_email db authorization =
     (case admin_required secret authorization of
        Inl e \<Rightarrow> Inl e
      | Inr _ \<Rightarrow> list_appointments is_email db)"

definition update_endpoint ::
  "string \<Rightarrow> (string \<Rightarrow> bool) \<Rightarrow> datetime \<Rightarrow> collection \<Rightarrow> string option \<Rightarrow> string
     \<Rightarrow> AppointmentUpdate \<Rightarrow> (error + appointment_out) \<times> collection" where
  "update_endpoint secret is_email now db authorization appointment_id payload =
     (case admin_required secret authorization of
        Inl e \<Rightarrow> (Inl e, db)
      | Inr _ \<Rightarrow> update_appointment is_email now db appointment_id payload)"

definition delete_endpoint ::
  "string \<Rightarrow> collection \<Rightarrow> string option \<Rightarrow> string \<Rightarrow> (error + bool) \<times> collection" where
  "delete_endpoint secret db authorization appointment_id =
     (case admin_required secret authorization of
        Inl e \<Rightarrow> (Inl e, db)
      | Inr _ \<Rightarrow> delete_appointment db appointment_id)"

section \<open>Reading and writing ISO strings\<close>

text \<open>
  \<^verbatim>\<open>datetime.fromisoformat\<close>, by the grammar the library documents for it,
  \<^verbatim>\<open>YYYY-MM-DD[*HH[:MM[:SS[.fff[fff]]]][+HH:MM[:SS[.ffffff]]]]\<close>: the first ten characters
  are the date, the eleventh is any separator, the rest is the time with an optional UTC
  offset. Every failure is the library's \<^verbatim>\<open>ValueError\<close>.
\<close>

definition is_digit :: "char \<Rightarrow> bool" where
  "is_digit c \<longleftrightarrow> c \<in> set ''0123456789''"

definition digit_val :: "char \<Rightarrow> int" where
  "digit_val c = of_char c - 48"

definition parse_digits :: "string \<Rightarrow> int option" where
  "parse_digits s =
     (if s \<noteq> [] \<and> list_all is_digit s
      then Some (foldl (\<lambda>n c. 10 * n + digit_val c) 0 s) else None)"

definition parse_isoformat_date :: "string \<Rightarrow> (int \<times> int \<times> int) option" where
  "parse_isoformat_date dtstr =
     (case dtstr of
        [y1, y2, y3, y4, a, m1, m2, b, d1, d2] \<Rightarrow>
          (case (parse_digits [y1, y2, y3, y4], parse_digits [m1, m2], parse_digits [d1, d2]) of
             (Some y, Some m, Some d) \<Rightarrow>
               if a = CHR ''-'' \<and> b = CHR ''-'' then Some (y, m, d) else None
           | _ \<Rightarrow> None)
      | _ \<Rightarrow> None)"

definition parse_hh_mm_ss_ff :: "string \<Rightarrow> (int \<times> int \<times> int \<times> int) option" where
  \<comment> \<open>\<^verbatim>\<open>HH[:MM[:SS[.fff[fff]]]]\<close>\<close>
  "parse_hh_mm_ss_ff tstr =
     (case tstr of
        [h1, h2] \<Rightarrow>
          (case parse_digits [h1, h2] of Some h \<Rightarrow> Some (h, 0, 0, 0) | None \<Rightarrow> None)
      | [h1, h2, a, m1, m2] \<Rightarrow>
          (case (parse_digits [h1, h2], parse_digits [m1, m2]) of
             (Some h, Some m) \<Rightarrow> if a = CHR '':'' then Some (h, m, 0, 0) else None
           | _ \<Rightarrow> None)
      | h1 # h2 # a # m1 # m2 # b # s1 # s2 # rest \<Rightarrow>
          (case (parse_digits [h1, h2], parse_digits [m1, m2], parse_digits [s1, s2]) of
             (Some h, Some m, Some s) \<Rightarrow>
               if a \<noteq> CHR '':'' \<or> b \<noteq> CHR '':'' then None
               else (case rest of
                       [] \<Rightarrow> Some (h, m, s, 0)
                     | dot # frac \<Rightarrow>
                         if dot \<noteq> CHR ''.'' then None
                         else (case parse_digits frac of
                                 None \<Rightarrow> None
                               | Some f \<Rightarrow>
                                   if length frac = 3 then Some (h, m, s, f * 1000)
                                   else if length frac = 6 then Some (h, m, s, f)
                                   else None))
           | _ \<Rightarrow> None)
      | _ \<Rightarrow> None)"

definition parse_tz :: "int \<Rightarrow> string \<Rightarrow> int option option" where
  \<comment> \<open>the offset after its sign: \<^verbatim>\<open>HH:MM\<close>, \<^verbatim>\<open>HH:MM:SS\<close> or \<^verbatim>\<open>HH:MM:SS.ffffff\<close>, less than a day\<close>
  "parse_tz sign tzstr =
     (if length tzstr \<noteq> 5 \<and> length tzstr \<noteq> 8 \<and> length tzstr \<noteq> 15 then None
      else (case parse_hh_mm_ss_ff tzstr of
              None \<Rightarrow> None
            | Some (h, m, s, f) \<Rightarrow>
                (let off = ((h * 60 + m) * 60 + s) * 1000000 + f in
                 if off < 86400000000 then Some (Some (sign * off)) else None)))"

definition parse_isoformat_time :: "string \<Rightarrow> (int \<times> int \<times> int \<times> int \<times> int option) option" where
  "parse_isoformat_time tstr =
     (if length tstr < 2 then None
      else
        (let sep = (if CHR ''-'' \<in> set tstr then Some (CHR ''-'')
                    else if CHR ''+'' \<in> set tstr then Some (CHR ''+'') else None);
             timestr = (case sep of None \<Rightarrow> tstr | Some c \<Rightarrow> takeWhile (\<lambda>x. x \<noteq> c) tstr);
             tzi = (case sep of
                      None \<Rightarrow> Some None
                    | Some c \<Rightarrow> parse_tz (if c = CHR ''-'' then - 1 else 1)
                                  (drop 1 (dropWhile (\<lambda>x. x \<noteq> c) tstr)))
         in case (parse_hh_mm_ss_ff timestr, tzi) of
              (Some (h, m, s, f), Some tz) \<Rightarrow> Some (h, m, s, f, tz)
            | _ \<Rightarrow> None))"

definition datetime_new ::
  "int \<Rightarrow> int \<Rightarrow> int \<Rightarrow> int \<Rightarrow> int \<Rightarrow> int \<Rightarrow> int \<Rightarrow> int option \<Rightarrow> error + datetime" where
  \<comment> \<open>the constructor: \<^verbatim>\<open>ValueError\<close> for a field out of range\<close>
  "datetime_new y m d h mi s us tz =
     (if valid_date y m d \<and> valid_time h mi s us
      then Inr \<lparr>year = y, month = m, day = d, hour = h, minute = mi, second = s,
                microsecond = us, tzinfo = tz\<rparr>
      else Inl ValueError)"

definition fromisoformat :: "string \<Rightarrow> error + datetime" where
  "fromisoformat date_string =
     (case parse_isoformat_date (take 10 date_string) of
        None \<Rightarrow> Inl ValueError
      | Some (y, m, d) \<Rightarrow>
          (case (if drop 11 date_string = [] then Some (0, 0, 0, 0, None)
                 else parse_isoformat_time (drop 11 date_string)) of
             None \<Rightarrow> Inl ValueError
           | Some (h, mi, s, us, tz) \<Rightarrow> datetime_new y m d h mi s us tz))"

text \<open>
  \<^verbatim>\<open>isoformat()\<close>: the fields zero-padded to their widths, the microseconds only when
  they are not zero, then the offset if the value has one.
\<close>

fun digits :: "nat \<Rightarrow> int \<Rightarrow> string" where
  "digits 0 n = []"
| "digits (Suc w) n = digits w (n div 10) @ [char_of (48 + n mod 10)]"

definition format_offset :: "int option \<Rightarrow> string" where
  "format_offset tz =
     (case tz of
        None \<Rightarrow> []
      | Some off \<Rightarrow>
          (let a = \<bar>off\<bar>;
               hh = a div 3600000000;
               mm = (a mod 3600000000) div 60000000;
               ss = (a mod 60000000) div 1000000;
               us = a mod 1000000
           in (if off < 0 then ''-'' else ''+'') @ digits 2 hh @ '':'' @ digits 2 mm @
              (if ss \<noteq> 0 \<or> us \<noteq> 0
               then '':'' @ digits 2 ss @ (if us \<noteq> 0 then ''.'' @ digits 6 us else [])
               else [])))"

definition isoformat :: "datetime \<Rightarrow> string" where
  "isoformat dt =
     digits 4 (year dt) @ ''-'' @ digits 2 (month dt) @ ''-'' @
     digits 2 (day dt) @ ''T'' @ digits 2 (hour dt) @ '':'' @
     digits 2 (minute dt) @ '':'' @ digits 2 (second dt) @
     (if microsecond dt \<noteq> 0 then ''.'' @ digits 6 (microsecond dt) else []) @
     format_offset (tzinfo dt)"

section \<open>Availability\<close>

definition datetime_iso_between :: "datetime \<Rightarrow> datetime \<Rightarrow> document \<Rightarrow> bool" where
  \<comment> \<open>\<^verbatim>\<open>{"datetime_iso": {"$gte": start, "$lte": end}}\<close>: a \<^verbatim>\<open>null\<close> field matches no range\<close>
  "datetime_iso_between start stop d =
     (case datetime_iso d of
        None \<Rightarrow> False
      | Some x \<Rightarrow> timestamp start \<le> timestamp x \<and> timestamp x \<le> timestamp stop)"

fun occupied :: "document list \<Rightarrow> error + string list" where
  \<comment> \<open>\<^verbatim>\<open>[e["datetime_iso"].isoformat() for e in exists]\<close>\<close>
  "occupied [] = Inr []"
| "occupied (e # es) =
     (case datetime_iso e of
        None \<Rightarrow> Inl AttributeError
      | Some x \<Rightarrow> (case occupied es of Inl err \<Rightarrow> Inl err | Inr xs \<Rightarrow> Inr (isoformat x # xs)))"

definition check_availability :: "collection \<Rightarrow> string \<Rightarrow> error + string list" where
  "check_availability db date =
     (case (case fromisoformat (date @ ''T00:00:00'') of
              Inl e \<Rightarrow> Inl e
            | Inr start \<Rightarrow>
                (case fromisoformat (date @ ''T23:59:59.999999'') of
                   Inl e \<Rightarrow> Inl e
                 | Inr stop \<Rightarrow> Inr (start, stop))) of
        Inl e \<Rightarrow> Inl (HTTPException 400)
      | Inr (start, stop) \<Rightarrow>
          occupied (filter (\<lambda>d. datetime_iso_between start stop d \<and> status_ne ''canceled'' d) db))"

section \<open>Values used in the statements and examples\<close>

text \<open>
  The dictionary \<^verbatim>\<open>updates\<close> of \<^verbatim>\<open>update_appointment\<close> as it stands after the guard
  (before \<^verbatim>\<open>updated_at\<close> is added): the payload's fields, a datetime that is present and
  not \<^verbatim>\<open>null\<close> replaced by its truncation.
\<close>

definition updates :: "AppointmentUpdate \<Rightarrow> AppointmentUpdate" where
  "updates payload =
     (case u_datetime_iso payload of
        Given (Some dt) \<Rightarrow>
          payload\<lparr>u_datetime_iso := Given (Some (replace_second_microsecond dt))\<rparr>
      | _ \<Rightarrow> payload)"

text \<open>
  The document that \<^verbatim>\<open>create_appointment\<close> builds (\<^verbatim>\<open>AppointmentSchema(...).model_dump()\<close>)
  as \<^verbatim>\<open>create_document\<close> inserts it.
\<close>

definition created_doc :: "datetime \<Rightarrow> oid \<Rightarrow> AppointmentCreate \<Rightarrow> document" where
  "created_doc now new_id p =
     \<lparr>doc_id = new_id, first_name = Some (c_first_name p), last_name = Some (c_last_name p),
      email = Some (c_email p), phone = Some (c_phone p),
      datetime_iso = Some (replace_second_microsecond (c_datetime_iso p)),
      location = Some (if c_location p \<noteq> [] then c_location p else ''Mourenx''),
      status = Some ''booked'', doc_notes = c_notes p,
      created_at = Some now, updated_at = Some now\<rparr>"

text \<open>
  The spec's example request, a clock reading, two keys, a stand-in for the email test,
  and a document booked at 2024-05-01T10:00:00.
\<close>

definition ex_dt :: "int \<Rightarrow> int \<Rightarrow> int \<Rightarrow> int \<Rightarrow> int \<Rightarrow> int \<Rightarrow> datetime" where
  "ex_dt y m d h mi s =
     \<lparr>year = y, month = m, day = d, hour = h, minute = mi, second = s, microsecond = 0,
      tzinfo = None\<rparr>"

definition ex_create :: "datetime \<Rightarrow> AppointmentCreate" where
  "ex_create dt =
     \<lparr>c_first_name = ''Ana'', c_last_name = ''B'', c_email = ''a@x.com'',
      c_phone = ''0600000000'', c_datetime_iso = dt, c_location = ''Mourenx'',
      c_notes = None\<rparr>"

definition ex_now :: datetime where
  "ex_now = ex_dt 2024 4 30 8 15 20"

definition ex_id1 :: oid where
  "ex_id1 = ''65f000000000000000000001''"

definition ex_id2 :: oid where
  "ex_id2 = ''65f000000000000000000002''"

definition ex_is_email :: "string \<Rightarrow> bool" where
  "ex_is_email s \<longleftrightarrow> CHR ''@'' \<in> set s"

definition ex_doc :: "oid \<Rightarrow> datetime \<Rightarrow> string \<Rightarrow> document" where
  "ex_doc i dt st =
     \<lparr>doc_id = i, first_name = Some ''Ana'', last_name = Some ''B'', email = Some ''a@x.com'',
      phone = Some ''0600000000'', datetime_iso = Some dt, location = Some ''Mourenx'',
      status = Some st, doc_notes = None, created_at = Some ex_now,
      updated_at = Some ex_now\<rparr>"

definition ex_update :: "datetime field \<Rightarrow> string field \<Rightarrow> AppointmentUpdate" where
  "ex_update dt st =
     \<lparr>u_first_name = Unset, u_last_name = Unset, u_email = Unset, u_phone = Unset,
      u_datetime_iso = dt, u_location = Unset, u_status = st, u_notes = Unset\<rparr>"

section \<open>Facts about the store operations\<close>

lemmas ex_defs = ex_dt_def ex_create_def ex_now_def ex_id1_def ex_id2_def ex_is_email_def
  ex_doc_def ex_update_def

lemmas timestamp_defs = timestamp_def ymd2ord_def days_before_year_def days_before_month_def
  is_leap_def replace_second_microsecond_def

lemma lower_hex_id: "c \<in> set ''0123456789abcdef'' \<Longrightarrow> lower_hex c = c \<and> is_hex_char c"
  by (auto simp: lower_hex_def is_hex_char_def)

lemma ObjectId_is_oid: "is_oid s \<Longrightarrow> ObjectId s = Inr s"
proof -
  assume a: "is_oid s"
  then have len: "length s = 24" and all: "\<forall>c\<in>set s. c \<in> set ''0123456789abcdef''"
    by (simp_all add: is_oid_def list_all_iff)
  from all have "list_all is_hex_char s" and "map lower_hex s = s"
    using lower_hex_id by (simp_all add: list_all_iff map_idI)
  with len show ?thesis by (simp add: ObjectId_def)
qed

lemma find_one_None: "find_one q db = None \<longleftrightarrow> (\<forall>d\<in>set db. \<not> q d)"
  by (auto simp: find_one_def find_None_iff)

lemma find_one_Some_mem: "find_one q db = Some d \<Longrightarrow> d \<in> set db \<and> q d"
  by (auto simp: find_one_def find_Some_iff)

lemma find_one_fresh:
  "\<forall>d\<in>set db. \<not> q d \<Longrightarrow> q x \<Longrightarrow> find_one q (db @ [x]) = Some x"
  by (induction db) (simp_all add: find_one_def)

lemma slot_query_iff:
  "(datetime_iso_eq dt d \<and> status_ne ''canceled'' d) \<longleftrightarrow>
   (status d \<noteq> Some ''canceled'' \<and> (\<exists>x. datetime_iso d = Some x \<and> timestamp x = timestamp dt))"
  by (auto simp: datetime_iso_eq_def status_ne_def split: option.splits)

lemma find_one_and_update_absent:
  "i \<notin> doc_id ` set db \<Longrightarrow> find_one_and_update i f db = (None, db)"
  by (induction db) auto

lemma find_one_and_update_first:
  "\<forall>x\<in>set pre. doc_id x \<noteq> i \<Longrightarrow> doc_id d = i \<Longrightarrow>
   find_one_and_update i f (pre @ d # post) = (Some (f d), pre @ f d # post)"
  by (induction pre) auto

lemma first_with_key:
  "i \<in> doc_id ` set db \<Longrightarrow>
   \<exists>pre d post. db = pre @ d # post \<and> doc_id d = i \<and> (\<forall>x\<in>set pre. doc_id x \<noteq> i)"
proof -
  assume "i \<in> doc_id ` set db"
  then have "\<exists>x\<in>set db. doc_id x = i" by auto
  from split_list_first_prop [OF this] show ?thesis by blast
qed

lemma delete_one_absent:
  "i \<notin> doc_id ` set db \<Longrightarrow> delete_one i db = (0, db)"
  by (induction db) auto

lemma delete_one_first:
  "\<forall>x\<in>set pre. doc_id x \<noteq> i \<Longrightarrow> doc_id d = i \<Longrightarrow>
   delete_one i (pre @ d # post) = (1, pre @ post)"
  by (induction pre) auto

lemma ObjectId_Inl:
  "ObjectId s = Inl e \<longleftrightarrow> e = InvalidId \<and> \<not> (length s = 24 \<and> list_all is_hex_char s)"
  by (auto simp: ObjectId_def)

lemma replace_idem:
  "replace_second_microsecond (replace_second_microsecond dt) = replace_second_microsecond dt"
  by (simp add: replace_second_microsecond_def)

lemma update_query_iff:
  "(doc_id d \<noteq> i \<and> datetime_iso_eq dt d \<and> status_ne ''canceled'' d) \<longleftrightarrow>
   (doc_id d \<noteq> i \<and> status d \<noteq> Some ''canceled'' \<and>
    (\<exists>x. datetime_iso d = Some x \<and> timestamp x = timestamp dt))"
  by (auto simp: datetime_iso_eq_def status_ne_def split: option.splits)

section \<open>Creating an appointment\<close>

lemma AppointmentSchema_valid:
  "valid_AppointmentCreate is_email p \<Longrightarrow>
   AppointmentSchema is_email (c_first_name p) (c_last_name p) (c_email p) (c_phone p) dt loc
     (c_notes p) =
   Inr \<lparr>s_first_name = c_first_name p, s_last_name = c_last_name p, s_email = c_email p,
        s_phone = c_phone p, s_datetime_iso = dt, s_location = loc, s_status = ''booked'',
        s_notes = c_notes p\<rparr>"
  by (simp add: valid_AppointmentCreate_def AppointmentSchema_def)

lemma create_appointment_conflict:
  assumes "\<exists>d\<in>set db. status d \<noteq> Some ''canceled'' \<and>
             (\<exists>x. datetime_iso d = Some x \<and>
                  timestamp x = timestamp (replace_second_microsecond (c_datetime_iso p)))"
  shows "create_appointment is_email now new_id db p = (Inl (HTTPException 409), db)"
proof -
  let ?q = "\<lambda>d. datetime_iso_eq (replace_second_microsecond (c_datetime_iso p)) d \<and>
                 status_ne ''canceled'' d"
  from assms have "find_one ?q db \<noteq> None"
    unfolding find_one_None slot_query_iff by blast
  then obtain dup where "find_one ?q db = Some dup" by blast
  then show ?thesis by (simp add: create_appointment_def Let_def)
qed

lemma create_appointment_free:
  assumes free: "\<not> (\<exists>d\<in>set db. status d \<noteq> Some ''canceled'' \<and>
             (\<exists>x. datetime_iso d = Some x \<and>
                  timestamp x = timestamp (replace_second_microsecond (c_datetime_iso p))))"
    and valid: "valid_AppointmentCreate is_email p"
    and oid: "is_oid new_id" and fresh: "new_id \<notin> doc_id ` set db"
  shows "create_appointment is_email now new_id db p =
           (AppointmentOut is_email (created_doc now new_id p), db @ [created_doc now new_id p])"
proof -
  let ?q = "\<lambda>d. datetime_iso_eq (replace_second_microsecond (c_datetime_iso p)) d \<and>
                 status_ne ''canceled'' d"
  from free have none: "find_one ?q db = None"
    unfolding find_one_None slot_query_iff by blast
  have found: "find_one (\<lambda>d. doc_id d = new_id) (db @ [created_doc now new_id p])
                 = Some (created_doc now new_id p)"
    using fresh by (intro find_one_fresh) (auto simp: created_doc_def)
  show ?thesis
    using none found
    by (simp add: create_appointment_def Let_def AppointmentSchema_valid [OF valid]
        create_document_def ObjectId_is_oid [OF oid] created_doc_def)
qed

lemma AppointmentOut_created_doc:
  assumes "valid_AppointmentCreate is_email p"
  shows "\<exists>out. AppointmentOut is_email (created_doc now new_id p) = Inr out \<and>
           o_id out = new_id \<and>
           o_datetime_iso out = replace_second_microsecond (c_datetime_iso p) \<and>
           o_status out = ''booked''"
  using assms by (simp add: AppointmentOut_def created_doc_def valid_AppointmentCreate_def)

section \<open>Updating an appointment\<close>

lemma update_appointment_bad_id:
  "ObjectId appointment_id = Inl e \<Longrightarrow>
   update_appointment is_email now db appointment_id payload = (Inl (HTTPException 400), db)"
  by (simp add: update_appointment_def)

lemma update_appointment_conflict:
  assumes "ObjectId appointment_id = Inr i"
    and "u_datetime_iso payload = Given (Some dt)"
    and "\<exists>d\<in>set db. doc_id d \<noteq> i \<and> status d \<noteq> Some ''canceled'' \<and>
           (\<exists>x. datetime_iso d = Some x \<and>
                timestamp x = timestamp (replace_second_microsecond dt))"
  shows "update_appointment is_email now db appointment_id payload =
           (Inl (HTTPException 409), db)"
proof -
  let ?q = "\<lambda>d. doc_id d \<noteq> i \<and> datetime_iso_eq (replace_second_microsecond dt) d \<and>
                 status_ne ''canceled'' d"
  from assms(3) have "find_one ?q db \<noteq> None"
    unfolding find_one_None update_query_iff by blast
  then obtain dup where "find_one ?q db = Some dup" by blast
  with assms(1,2) show ?thesis by (simp add: update_appointment_def Let_def)
qed

lemma update_appointment_pass:
  assumes "ObjectId appointment_id = Inr i"
    and "\<forall>dt. u_datetime_iso payload = Given (Some dt) \<longrightarrow>
           \<not> (\<exists>d\<in>set db. doc_id d \<noteq> i \<and> status d \<noteq> Some ''canceled'' \<and>
           (\<exists>x. datetime_iso d = Some x \<and>
                timestamp x = timestamp (replace_second_microsecond dt)))"
  shows "update_appointment is_email now db appointment_id payload =
           (case find_one_and_update i (set_updates (updates payload) now) db of
              (None, db') \<Rightarrow> (Inl (HTTPException 404), db')
            | (Some res, db') \<Rightarrow> (AppointmentOut is_email res, db'))"
proof (cases "u_datetime_iso payload")
  case Unset
  with assms(1) show ?thesis by (simp add: update_appointment_def updates_def)
next
  case (Given v)
  show ?thesis
  proof (cases v)
    case None
    with Given assms(1) show ?thesis by (simp add: update_appointment_def updates_def)
  next
    case (Some dt)
    let ?q = "\<lambda>d. doc_id d \<noteq> i \<and> datetime_iso_eq (replace_second_microsecond dt) d \<and>
                 status_ne ''canceled'' d"
    from assms(2) Given Some have "find_one ?q db = None"
      unfolding find_one_None update_query_iff by blast
    with Given Some assms(1) show ?thesis
      by (simp add: update_appointment_def updates_def Let_def)
  qed
qed

lemma update_appointment_pass_found:
  assumes "ObjectId appointment_id = Inr i"
    and "\<forall>dt. u_datetime_iso payload = Given (Some dt) \<longrightarrow>
           \<not> (\<exists>d\<in>set db. doc_id d \<noteq> i \<and> status d \<noteq> Some ''canceled'' \<and>
           (\<exists>x. datetime_iso d = Some x \<and>
                timestamp x = timestamp (replace_second_microsecond dt)))"
    and "db = pre @ d # post" and "doc_id d = i" and "\<forall>x\<in>set pre. doc_id x \<noteq> i"
  shows "update_appointment is_email now db appointment_id payload =
           (AppointmentOut is_email (set_updates (updates payload) now d),
            pre @ set_updates (updates payload) now d # post)"
proof -
  have "find_one_and_update i (set_updates (updates payload) now) db =
          (Some (set_updates (updates payload) now d),
           pre @ set_updates (updates payload) now d # post)"
    using assms(3-5) by (simp add: find_one_and_update_first)
  then show ?thesis
    unfolding update_appointment_pass [OF assms(1,2)] by simp
qed

lemma update_appointment_pass_absent:
  assumes "ObjectId appointment_id = Inr i"
    and "\<forall>dt. u_datetime_iso payload = Given (Some dt) \<longrightarrow>
           \<not> (\<exists>d\<in>set db. doc_id d \<noteq> i \<and> status d \<noteq> Some ''canceled'' \<and>
           (\<exists>x. datetime_iso d = Some x \<and>
                timestamp x = timestamp (replace_second_microsecond dt)))"
    and "i \<notin> doc_id ` set db"
  shows "update_appointment is_email now db appointment_id payload =
           (Inl (HTTPException 404), db)"
proof -
  have "find_one_and_update i (set_updates (updates payload) now) db = (None, db)"
    using assms(3) by (rule find_one_and_update_absent)
  then show ?thesis
    unfolding update_appointment_pass [OF assms(1,2)] by simp
qed

lemma create_appointment_truncates_first:
  "create_appointment is_email now new_id db
     (p\<lparr>c_datetime_iso := replace_second_microsecond (c_datetime_iso p)\<rparr>) =
   create_appointment is_email now new_id db p"
  by (simp add: create_appointment_def replace_idem Let_def cong: option.case_cong)

lemma create_appointment_store:
  "snd (create_appointment is_email now new_id db p) = db \<or>
   snd (create_appointment is_email now new_id db p) = db @ [created_doc now new_id p]"
  by (auto simp: create_appointment_def Let_def AppointmentSchema_def create_document_def
      created_doc_def split: option.splits sum.splits if_splits)

lemma updates_truncated:
  "u_datetime_iso payload = Given (Some dt) \<Longrightarrow>
   updates (payload\<lparr>u_datetime_iso := Given (Some (replace_second_microsecond dt))\<rparr>) =
   updates payload"
  by (simp add: updates_def replace_idem)

lemma update_appointment_truncates_first:
  assumes dt: "u_datetime_iso payload = Given (Some dt)"
  shows "update_appointment is_email now db appointment_id
           (payload\<lparr>u_datetime_iso := Given (Some (replace_second_microsecond dt))\<rparr>) =
         update_appointment is_email now db appointment_id payload"
proof (cases "ObjectId appointment_id")
  case (Inl e)
  then show ?thesis by (simp add: update_appointment_bad_id)
next
  case (Inr i)
  let ?p' = "payload\<lparr>u_datetime_iso := Given (Some (replace_second_microsecond dt))\<rparr>"
  let ?hit = "\<exists>d\<in>set db. doc_id d \<noteq> i \<and> status d \<noteq> Some ''canceled'' \<and>
           (\<exists>x. datetime_iso d = Some x \<and>
                timestamp x = timestamp (replace_second_microsecond dt))"
  have dt': "u_datetime_iso ?p' = Given (Some (replace_second_microsecond dt))" by simp
  show ?thesis
  proof (cases ?hit)
    case True
    then have "update_appointment is_email now db appointment_id ?p' =
                 (Inl (HTTPException 409), db)"
      by (intro update_appointment_conflict [OF Inr dt']) (simp add: replace_idem)
    moreover from True have "update_appointment is_email now db appointment_id payload =
                 (Inl (HTTPException 409), db)"
      by (intro update_appointment_conflict [OF Inr dt])
    ultimately show ?thesis by simp
  next
    case False
    then have "update_appointment is_email now db appointment_id ?p' =
           (case find_one_and_update i (set_updates (updates ?p') now) db of
              (None, db') \<Rightarrow> (Inl (HTTPException 404), db')
            | (Some res, db') \<Rightarrow> (AppointmentOut is_email res, db'))"
      by (intro update_appointment_pass [OF Inr]) (simp add: replace_idem)
    moreover from False dt have "update_appointment is_email now db appointment_id payload =
           (case find_one_and_update i (set_updates (updates payload) now) db of
              (None, db') \<Rightarrow> (Inl (HTTPException 404), db')
            | (Some res, db') \<Rightarrow> (AppointmentOut is_email res, db'))"
      by (intro update_appointment_pass [OF Inr]) simp
    ultimately show ?thesis by (simp add: updates_truncated [OF dt])
  qed
qed

lemma set_updates_datetime:
  "u_datetime_iso payload = Given (Some dt) \<Longrightarrow>
   datetime_iso (set_updates (updates payload) now d) = Some (replace_second_microsecond dt)"
  by (simp add: set_updates_def updates_def set_field_def)

lemma set_updates_only_datetime:
  assumes "u_first_name u = Unset" "u_last_name u = Unset" "u_email u = Unset"
    "u_phone u = Unset" "u_location u = Unset" "u_status u = Unset" "u_notes u = Unset"
    "u_datetime_iso u = Given v"
  shows "set_updates u now d = d\<lparr>datetime_iso := v, updated_at := Some now\<rparr>"
  using assms by (simp add: set_updates_def set_field_def)

lemma updates_fields:
  "u_first_name (updates u) = u_first_name u" "u_last_name (updates u) = u_last_name u"
  "u_email (updates u) = u_email u" "u_phone (updates u) = u_phone u"
  "u_location (updates u) = u_location u" "u_status (updates u) = u_status u"
  "u_notes (updates u) = u_notes u"
  "u_datetime_iso (updates u) =
     (case u_datetime_iso u of
        Given (Some dt) \<Rightarrow> Given (Some (replace_second_microsecond dt))
      | f \<Rightarrow> f)"
  by (simp_all add: updates_def split: field.splits option.splits)

lemma AppointmentOut_datetime_update:
  assumes "AppointmentOut is_email d = Inr out"
  shows "AppointmentOut is_email (d\<lparr>datetime_iso := Some dt, updated_at := Some now\<rparr>) =
           Inr (out\<lparr>o_datetime_iso := dt, o_updated_at := Some now\<rparr>)"
  using assms by (auto simp: AppointmentOut_def split: option.splits if_splits)

lemma delete_one_distinct:
  "distinct (map doc_id db) \<Longrightarrow> i \<in> doc_id ` set db \<Longrightarrow>
   delete_one i db = (1, filter (\<lambda>d. doc_id d \<noteq> i) db)"
proof (induction db)
  case Nil
  then show ?case by simp
next
  case (Cons a db)
  show ?case
  proof (cases "doc_id a = i")
    case True
    with Cons.prems have "i \<notin> doc_id ` set db" by simp
    then have "\<forall>x\<in>set db. doc_id x \<noteq> i" by blast
    then have "filter (\<lambda>d. doc_id d \<noteq> i) db = db" by (simp add: filter_id_conv)
    with True show ?thesis by simp
  next
    case False
    with Cons show ?thesis by auto
  qed
qed

lemma ObjectId_malformed:
  "\<not> (length s = 24 \<and> list_all is_hex_char s) \<Longrightarrow> ObjectId s = Inl InvalidId"
  by (auto simp: ObjectId_def)

lemma updates_no_datetime:
  "u_datetime_iso payload = Given None \<or> u_datetime_iso payload = Unset \<Longrightarrow>
   updates payload = payload"
  by (auto simp: updates_def)

lemma AppointmentOut_null_datetime:
  "datetime_iso d = None \<Longrightarrow> AppointmentOut is_email d = Inl ValidationError"
  by (simp add: AppointmentOut_def split: option.splits)

lemma set_updates_frame:
  "doc_id (set_updates u now d) = doc_id d \<and>
   created_at (set_updates u now d) = created_at d \<and>
   updated_at (set_updates u now d) = Some now \<and>
   first_name (set_updates u now d) = set_field (u_first_name u) (first_name d) \<and>
   last_name (set_updates u now d) = set_field (u_last_name u) (last_name d) \<and>
   email (set_updates u now d) = set_field (u_email u) (email d) \<and>
   phone (set_updates u now d) = set_field (u_phone u) (phone d) \<and>
   datetime_iso (set_updates u now d) = set_field (u_datetime_iso u) (datetime_iso d) \<and>
   location (set_updates u now d) = set_field (u_location u) (location d) \<and>
   status (set_updates u now d) = set_field (u_status u) (status d) \<and>
   doc_notes (set_updates u now d) = set_field (u_notes u) (doc_notes d)"
  by (simp add: set_updates_def)

lemma update_appointment_success:
  assumes ok: "update_appointment is_email now db appointment_id payload = (Inr out, db')"
  shows "\<exists>i pre d post. ObjectId appointment_id = Inr i \<and> db = pre @ d # post \<and>
           doc_id d = i \<and> (\<forall>x\<in>set pre. doc_id x \<noteq> i) \<and>
           db' = pre @ set_updates (updates payload) now d # post \<and>
           AppointmentOut is_email (set_updates (updates payload) now d) = Inr out"
proof -
  obtain i where oid: "ObjectId appointment_id = Inr i"
  proof (cases "ObjectId appointment_id")
    case (Inl e)
    with ok show ?thesis by (simp add: update_appointment_bad_id)
  next
    case (Inr i)
    then show ?thesis by (rule that)
  qed
  have free: "\<forall>dt. u_datetime_iso payload = Given (Some dt) \<longrightarrow>
           \<not> (\<exists>d\<in>set db. doc_id d \<noteq> i \<and> status d \<noteq> Some ''canceled'' \<and>
           (\<exists>x. datetime_iso d = Some x \<and>
                timestamp x = timestamp (replace_second_microsecond dt)))"
  proof (intro allI impI notI)
    fix dt
    assume "u_datetime_iso payload = Given (Some dt)"
      and "\<exists>d\<in>set db. doc_id d \<noteq> i \<and> status d \<noteq> Some ''canceled'' \<and>
           (\<exists>x. datetime_iso d = Some x \<and>
                timestamp x = timestamp (replace_second_microsecond dt))"
    with oid have "update_appointment is_email now db appointment_id payload =
           (Inl (HTTPException 409), db)"
      by (rule update_appointment_conflict)
    with ok show False by simp
  qed
  have "i \<in> doc_id ` set db"
  proof (rule ccontr)
    assume "i \<notin> doc_id ` set db"
    with oid free have "update_appointment is_email now db appointment_id payload =
           (Inl (HTTPException 404), db)"
      by (rule update_appointment_pass_absent)
    with ok show False by simp
  qed
  then obtain pre d post where dec: "db = pre @ d # post" "doc_id d = i"
      "\<forall>x\<in>set pre. doc_id x \<noteq> i"
    using first_with_key by blast
  with oid free have "update_appointment is_email now db appointment_id payload =
           (AppointmentOut is_email (set_updates (updates payload) now d),
            pre @ set_updates (updates payload) now d # post)"
    by (intro update_appointment_pass_found)
  with ok dec oid show ?thesis by auto
qed

section \<open>The claims\<close>

text \<open>
  Claim C2. A create request whose datetime, with seconds and microseconds zeroed, is the
  point in time of the \<^verbatim>\<open>datetime_iso\<close> of some document whose status is not
  \<^verbatim>\<open>canceled\<close> is answered with \<^verbatim>\<open>HTTPException(409)\<close> and leaves the collection as it
  was. A valid create request that meets no such document succeeds, given that the store
  assigns a key no document has: the collection gains exactly the new document, and the
  response carries the new key, the truncated datetime and the status \<^verbatim>\<open>booked\<close>.
\<close>

theorem create_conflict_or_success:
  "((\<exists>d\<in>set db. status d \<noteq> Some ''canceled'' \<and>
        (\<exists>x. datetime_iso d = Some x \<and>
             timestamp x = timestamp (replace_second_microsecond (c_datetime_iso p))))
      \<longrightarrow> create_appointment is_email now new_id db p = (Inl (HTTPException 409), db)) \<and>
   (\<not> (\<exists>d\<in>set db. status d \<noteq> Some ''canceled'' \<and>
        (\<exists>x. datetime_iso d = Some x \<and>
             timestamp x = timestamp (replace_second_microsecond (c_datetime_iso p)))) \<and>
    valid_AppointmentCreate is_email p \<and> is_oid new_id \<and> new_id \<notin> doc_id ` set db
      \<longrightarrow> (\<exists>out. create_appointment is_email now new_id db p =
                   (Inr out, db @ [created_doc now new_id p]) \<and>
                 o_id out = new_id \<and>
                 o_datetime_iso out = replace_second_microsecond (c_datetime_iso p) \<and>
                 o_status out = ''booked''))"
proof (intro conjI impI)
  assume "\<exists>d\<in>set db. status d \<noteq> Some ''canceled'' \<and>
        (\<exists>x. datetime_iso d = Some x \<and>
             timestamp x = timestamp (replace_second_microsecond (c_datetime_iso p)))"
  then show "create_appointment is_email now new_id db p = (Inl (HTTPException 409), db)"
    by (rule create_appointment_conflict)
next
  assume a: "\<not> (\<exists>d\<in>set db. status d \<noteq> Some ''canceled'' \<and>
        (\<exists>x. datetime_iso d = Some x \<and>
             timestamp x = timestamp (replace_second_microsecond (c_datetime_iso p)))) \<and>
    valid_AppointmentCreate is_email p \<and> is_oid new_id \<and> new_id \<notin> doc_id ` set db"
  then have eq: "create_appointment is_email now new_id db p =
           (AppointmentOut is_email (created_doc now new_id p), db @ [created_doc now new_id p])"
    by (intro create_appointment_free) simp_all
  from a AppointmentOut_created_doc [of is_email p now new_id]
  show "\<exists>out. create_appointment is_email now new_id db p =
                   (Inr out, db @ [created_doc now new_id p]) \<and>
                 o_id out = new_id \<and>
                 o_datetime_iso out = replace_second_microsecond (c_datetime_iso p) \<and>
                 o_status out = ''booked''"
    unfolding eq by auto
qed

theorem create_conflict_or_success_witness:
  "create_appointment ex_is_email ex_now ex_id2
     [ex_doc ex_id1 (ex_dt 2024 5 1 10 0 0) ''booked''] (ex_create (ex_dt 2024 5 1 10 0 45))
     = (Inl (HTTPException 409), [ex_doc ex_id1 (ex_dt 2024 5 1 10 0 0) ''booked'']) \<and>
   (\<exists>out. create_appointment ex_is_email ex_now ex_id2
      [ex_doc ex_id1 (ex_dt 2024 5 1 10 1 0) ''booked''] (ex_create (ex_dt 2024 5 1 10 0 45))
     = (Inr out, [ex_doc ex_id1 (ex_dt 2024 5 1 10 1 0) ''booked'',
                  created_doc ex_now ex_id2 (ex_create (ex_dt 2024 5 1 10 0 45))]) \<and>
     o_datetime_iso out = ex_dt 2024 5 1 10 0 0)"
proof -
  let ?p = "ex_create (ex_dt 2024 5 1 10 0 45)"
  let ?db1 = "[ex_doc ex_id1 (ex_dt 2024 5 1 10 0 0) ''booked'']"
  let ?db2 = "[ex_doc ex_id1 (ex_dt 2024 5 1 10 1 0) ''booked'']"
  have taken: "\<exists>d\<in>set ?db1. status d \<noteq> Some ''canceled'' \<and>
        (\<exists>x. datetime_iso d = Some x \<and>
             timestamp x = timestamp (replace_second_microsecond (c_datetime_iso ?p)))"
    by (simp add: ex_defs timestamp_defs)
  have free: "\<not> (\<exists>d\<in>set ?db2. status d \<noteq> Some ''canceled'' \<and>
        (\<exists>x. datetime_iso d = Some x \<and>
             timestamp x = timestamp (replace_second_microsecond (c_datetime_iso ?p)))) \<and>
    valid_AppointmentCreate ex_is_email ?p \<and> is_oid ex_id2 \<and> ex_id2 \<notin> doc_id ` set ?db2"
    by (simp add: ex_defs timestamp_defs valid_AppointmentCreate_def is_oid_def)
  have trunc: "replace_second_microsecond (c_datetime_iso ?p) = ex_dt 2024 5 1 10 0 0"
    by (simp add: ex_defs replace_second_microsecond_def)
  from taken free trunc
    create_conflict_or_success [of ?db1 ?p ex_is_email ex_now ex_id2]
    create_conflict_or_success [of ?db2 ?p ex_is_email ex_now ex_id2]
  show ?thesis by auto
qed


text \<open>
  Claim C3. Create and update zero the seconds and microseconds of the submitted datetime
  before anything else is done with it: either handler gives the same result on the
  payload and on the payload with the datetime already truncated, so the conflict check
  sees only the truncated value; the only document create can add holds the truncated
  value; and an update that reaches the store writes the truncated value.
\<close>

theorem truncated_before_check_and_store:
  "create_appointment is_email now new_id db p =
     create_appointment is_email now new_id db
       (p\<lparr>c_datetime_iso := replace_second_microsecond (c_datetime_iso p)\<rparr>) \<and>
   (snd (create_appointment is_email now new_id db p) = db \<or>
    snd (create_appointment is_email now new_id db p) = db @ [created_doc now new_id p]) \<and>
   datetime_iso (created_doc now new_id p) =
     Some (replace_second_microsecond (c_datetime_iso p)) \<and>
   replace_second_microsecond dt = dt\<lparr>second := 0, microsecond := 0\<rparr> \<and>
   (u_datetime_iso payload = Given (Some dt) \<longrightarrow>
      update_appointment is_email now db appointment_id payload =
        update_appointment is_email now db appointment_id
          (payload\<lparr>u_datetime_iso := Given (Some (replace_second_microsecond dt))\<rparr>)) \<and>
   (u_datetime_iso payload = Given (Some dt) \<and> ObjectId appointment_id = Inr i \<and>
    db = pre @ d # post \<and> doc_id d = i \<and> (\<forall>x\<in>set pre. doc_id x \<noteq> i) \<and>
    \<not> (\<exists>e\<in>set db. doc_id e \<noteq> i \<and> status e \<noteq> Some ''canceled'' \<and>
           (\<exists>x. datetime_iso e = Some x \<and>
                timestamp x = timestamp (replace_second_microsecond dt)))
     \<longrightarrow> (\<exists>d'. snd (update_appointment is_email now db appointment_id payload) =
                  pre @ d' # post \<and>
               datetime_iso d' = Some (replace_second_microsecond dt)))"
proof (intro conjI impI)
  show "create_appointment is_email now new_id db p =
     create_appointment is_email now new_id db
       (p\<lparr>c_datetime_iso := replace_second_microsecond (c_datetime_iso p)\<rparr>)"
    by (rule create_appointment_truncates_first [symmetric])
  show "snd (create_appointment is_email now new_id db p) = db \<or>
    snd (create_appointment is_email now new_id db p) = db @ [created_doc now new_id p]"
    by (rule create_appointment_store)
  show "datetime_iso (created_doc now new_id p) =
     Some (replace_second_microsecond (c_datetime_iso p))"
    by (simp add: created_doc_def)
  show "replace_second_microsecond dt = dt\<lparr>second := 0, microsecond := 0\<rparr>"
    by (simp add: replace_second_microsecond_def)
next
  assume "u_datetime_iso payload = Given (Some dt)"
  then show "update_appointment is_email now db appointment_id payload =
        update_appointment is_email now db appointment_id
          (payload\<lparr>u_datetime_iso := Given (Some (replace_second_microsecond dt))\<rparr>)"
    by (rule update_appointment_truncates_first [symmetric])
next
  assume a: "u_datetime_iso payload = Given (Some dt) \<and> ObjectId appointment_id = Inr i \<and>
    db = pre @ d # post \<and> doc_id d = i \<and> (\<forall>x\<in>set pre. doc_id x \<noteq> i) \<and>
    \<not> (\<exists>e\<in>set db. doc_id e \<noteq> i \<and> status e \<noteq> Some ''canceled'' \<and>
           (\<exists>x. datetime_iso e = Some x \<and>
                timestamp x = timestamp (replace_second_microsecond dt)))"
  then have "update_appointment is_email now db appointment_id payload =
           (AppointmentOut is_email (set_updates (updates payload) now d),
            pre @ set_updates (updates payload) now d # post)"
    by (intro update_appointment_pass_found [where i = i]) auto
  moreover from a have "datetime_iso (set_updates (updates payload) now d) =
      Some (replace_second_microsecond dt)"
    by (simp add: set_updates_datetime)
  ultimately show "\<exists>d'. snd (update_appointment is_email now db appointment_id payload) =
                  pre @ d' # post \<and>
               datetime_iso d' = Some (replace_second_microsecond dt)"
    by auto
qed

theorem truncated_before_check_and_store_witness:
  "datetime_iso (created_doc ex_now ex_id1 (ex_create (ex_dt 2024 5 1 10 0 30))) =
     Some (ex_dt 2024 5 1 10 0 0) \<and>
   snd (create_appointment ex_is_email ex_now ex_id1 [] (ex_create (ex_dt 2024 5 1 10 0 30))) =
     [created_doc ex_now ex_id1 (ex_create (ex_dt 2024 5 1 10 0 30))] \<and>
   update_appointment ex_is_email ex_now [ex_doc ex_id1 (ex_dt 2024 5 1 10 0 0) ''booked'']
       ex_id1 (ex_update (Given (Some (ex_dt 2024 5 2 9 30 59))) Unset) =
     update_appointment ex_is_email ex_now [ex_doc ex_id1 (ex_dt 2024 5 1 10 0 0) ''booked'']
       ex_id1 (ex_update (Given (Some (ex_dt 2024 5 2 9 30 0))) Unset) \<and>
   (\<exists>d'. snd (update_appointment ex_is_email ex_now
                 [ex_doc ex_id1 (ex_dt 2024 5 1 10 0 0) ''booked''] ex_id1
                 (ex_update (Given (Some (ex_dt 2024 5 2 9 30 59))) Unset)) = [d'] \<and>
         datetime_iso d' = Some (ex_dt 2024 5 2 9 30 0))"
proof -
  let ?dt = "ex_dt 2024 5 2 9 30 59"
  let ?u = "ex_update (Given (Some ?dt)) Unset"
  let ?d = "ex_doc ex_id1 (ex_dt 2024 5 1 10 0 0) ''booked''"
  let ?p = "ex_create (ex_dt 2024 5 1 10 0 30)"
  have given: "u_datetime_iso ?u = Given (Some ?dt)"
    by (simp add: ex_update_def)
  have hyps: "u_datetime_iso ?u = Given (Some ?dt) \<and> ObjectId ex_id1 = Inr ex_id1 \<and>
      [?d] = [] @ ?d # [] \<and> doc_id ?d = ex_id1 \<and> (\<forall>x\<in>set []. doc_id x \<noteq> ex_id1) \<and>
      \<not> (\<exists>e\<in>set [?d]. doc_id e \<noteq> ex_id1 \<and> status e \<noteq> Some ''canceled'' \<and>
             (\<exists>x. datetime_iso e = Some x \<and>
                  timestamp x = timestamp (replace_second_microsecond ?dt)))"
    by (simp add: ex_defs ObjectId_def is_hex_char_def lower_hex_def)
  have trunc: "replace_second_microsecond ?dt = ex_dt 2024 5 2 9 30 0"
      "replace_second_microsecond (ex_dt 2024 5 1 10 0 30) = ex_dt 2024 5 1 10 0 0"
    by (simp_all add: ex_dt_def replace_second_microsecond_def)
  have upd: "?u\<lparr>u_datetime_iso := Given (Some (ex_dt 2024 5 2 9 30 0))\<rparr> =
               ex_update (Given (Some (ex_dt 2024 5 2 9 30 0))) Unset"
    by (simp add: ex_update_def)
  have stored: "snd (create_appointment ex_is_email ex_now ex_id1 [] ?p) \<noteq> []"
    by (simp add: create_appointment_def find_one_def AppointmentSchema_def Let_def
        create_document_def ObjectId_def is_hex_char_def lower_hex_def ex_defs)
  have cd: "c_datetime_iso ?p = ex_dt 2024 5 1 10 0 30"
    by (simp add: ex_create_def)
  from given hyps stored
    truncated_before_check_and_store [of ex_is_email ex_now ex_id1 "[]" ?p ?dt ?u
      ex_id1 ex_id1 "[]" ?d "[]"]
    truncated_before_check_and_store [of ex_is_email ex_now ex_id1 "[?d]" ?p ?dt ?u
      ex_id1 ex_id1 "[]" ?d "[]"]
  show ?thesis
    unfolding trunc upd cd by auto
qed

text \<open>
  Claim C4. An update that supplies a datetime is answered with \<^verbatim>\<open>HTTPException(409)\<close>,
  the collection untouched, when a document with another key and a status other than
  \<^verbatim>\<open>canceled\<close> holds the truncated datetime. The document being updated is left out of
  that search: an update of a document to the slot it already holds, no other document
  blocking it, passes the guard and rewrites the document; when the payload carries only
  the datetime and the document is one \<^verbatim>\<open>AppointmentOut\<close> accepts, the update succeeds.
\<close>

theorem update_conflict_excludes_self:
  "(ObjectId appointment_id = Inr i \<and> u_datetime_iso payload = Given (Some dt) \<and>
    (\<exists>e\<in>set db. doc_id e \<noteq> i \<and> status e \<noteq> Some ''canceled'' \<and>
        (\<exists>x. datetime_iso e = Some x \<and>
             timestamp x = timestamp (replace_second_microsecond dt)))
     \<longrightarrow> update_appointment is_email now db appointment_id payload =
           (Inl (HTTPException 409), db)) \<and>
   (ObjectId appointment_id = Inr i \<and> u_datetime_iso payload = Given (Some dt) \<and>
    db = pre @ d # post \<and> doc_id d = i \<and> (\<forall>x\<in>set pre. doc_id x \<noteq> i) \<and>
    datetime_iso d = Some own \<and> timestamp own = timestamp (replace_second_microsecond dt) \<and>
    \<not> (\<exists>e\<in>set db. doc_id e \<noteq> i \<and> status e \<noteq> Some ''canceled'' \<and>
        (\<exists>x. datetime_iso e = Some x \<and>
             timestamp x = timestamp (replace_second_microsecond dt)))
     \<longrightarrow> update_appointment is_email now db appointment_id payload =
           (AppointmentOut is_email (set_updates (updates payload) now d),
            pre @ set_updates (updates payload) now d # post) \<and>
         (u_first_name payload = Unset \<and> u_last_name payload = Unset \<and>
          u_email payload = Unset \<and> u_phone payload = Unset \<and>
          u_location payload = Unset \<and> u_status payload = Unset \<and>
          u_notes payload = Unset \<and> AppointmentOut is_email d = Inr out
           \<longrightarrow> update_appointment is_email now db appointment_id payload =
                 (Inr (out\<lparr>o_datetime_iso := replace_second_microsecond dt,
                            o_updated_at := Some now\<rparr>),
                  pre @ d\<lparr>datetime_iso := Some (replace_second_microsecond dt),
                           updated_at := Some now\<rparr> # post)))"
proof (intro conjI impI)
  assume "ObjectId appointment_id = Inr i \<and> u_datetime_iso payload = Given (Some dt) \<and>
    (\<exists>e\<in>set db. doc_id e \<noteq> i \<and> status e \<noteq> Some ''canceled'' \<and>
        (\<exists>x. datetime_iso e = Some x \<and>
             timestamp x = timestamp (replace_second_microsecond dt)))"
  then show "update_appointment is_email now db appointment_id payload =
           (Inl (HTTPException 409), db)"
    by (intro update_appointment_conflict [where i = i and dt = dt]) simp_all
next
  assume a: "ObjectId appointment_id = Inr i \<and> u_datetime_iso payload = Given (Some dt) \<and>
    db = pre @ d # post \<and> doc_id d = i \<and> (\<forall>x\<in>set pre. doc_id x \<noteq> i) \<and>
    datetime_iso d = Some own \<and> timestamp own = timestamp (replace_second_microsecond dt) \<and>
    \<not> (\<exists>e\<in>set db. doc_id e \<noteq> i \<and> status e \<noteq> Some ''canceled'' \<and>
        (\<exists>x. datetime_iso e = Some x \<and>
             timestamp x = timestamp (replace_second_microsecond dt)))"
  then show res: "update_appointment is_email now db appointment_id payload =
           (AppointmentOut is_email (set_updates (updates payload) now d),
            pre @ set_updates (updates payload) now d # post)"
    by (intro update_appointment_pass_found [where i = i]) auto
  assume b: "u_first_name payload = Unset \<and> u_last_name payload = Unset \<and>
          u_email payload = Unset \<and> u_phone payload = Unset \<and>
          u_location payload = Unset \<and> u_status payload = Unset \<and>
          u_notes payload = Unset \<and> AppointmentOut is_email d = Inr out"
  with a have "set_updates (updates payload) now d =
      d\<lparr>datetime_iso := Some (replace_second_microsecond dt), updated_at := Some now\<rparr>"
    by (intro set_updates_only_datetime) (simp_all add: updates_fields)
  with res b show "update_appointment is_email now db appointment_id payload =
                 (Inr (out\<lparr>o_datetime_iso := replace_second_microsecond dt,
                            o_updated_at := Some now\<rparr>),
                  pre @ d\<lparr>datetime_iso := Some (replace_second_microsecond dt),
                           updated_at := Some now\<rparr> # post)"
    by (simp add: AppointmentOut_datetime_update)
qed


theorem update_conflict_excludes_self_witness:
  "update_appointment ex_is_email ex_now
     [ex_doc ex_id1 (ex_dt 2024 5 1 10 0 0) ''booked'',
      ex_doc ex_id2 (ex_dt 2024 5 1 11 0 0) ''booked'']
     ex_id1 (ex_update (Given (Some (ex_dt 2024 5 1 11 0 20))) Unset) =
   (Inl (HTTPException 409),
     [ex_doc ex_id1 (ex_dt 2024 5 1 10 0 0) ''booked'',
      ex_doc ex_id2 (ex_dt 2024 5 1 11 0 0) ''booked'']) \<and>
   (\<exists>out. update_appointment ex_is_email ex_now
      [ex_doc ex_id1 (ex_dt 2024 5 1 10 0 0) ''booked'',
       ex_doc ex_id2 (ex_dt 2024 5 1 11 0 0) ''booked'']
      ex_id1 (ex_update (Given (Some (ex_dt 2024 5 1 10 0 40))) Unset) =
    (Inr out,
      [(ex_doc ex_id1 (ex_dt 2024 5 1 10 0 0) ''booked'')\<lparr>updated_at := Some ex_now\<rparr>,
       ex_doc ex_id2 (ex_dt 2024 5 1 11 0 0) ''booked'']) \<and>
    o_id out = ex_id1 \<and> o_datetime_iso out = ex_dt 2024 5 1 10 0 0)"
proof -
  let ?d1 = "ex_doc ex_id1 (ex_dt 2024 5 1 10 0 0) ''booked''"
  let ?d2 = "ex_doc ex_id2 (ex_dt 2024 5 1 11 0 0) ''booked''"
  let ?clash = "ex_dt 2024 5 1 11 0 20"
  let ?own = "ex_dt 2024 5 1 10 0 40"
  let ?u = "\<lambda>dt. ex_update (Given (Some dt)) Unset"
  have oid: "ObjectId ex_id1 = Inr ex_id1"
    by (simp add: ex_id1_def ObjectId_def is_hex_char_def lower_hex_def)
  have h1: "ObjectId ex_id1 = Inr ex_id1 \<and> u_datetime_iso (?u ?clash) = Given (Some ?clash) \<and>
    (\<exists>e\<in>set [?d1, ?d2]. doc_id e \<noteq> ex_id1 \<and> status e \<noteq> Some ''canceled'' \<and>
        (\<exists>x. datetime_iso e = Some x \<and>
             timestamp x = timestamp (replace_second_microsecond ?clash)))"
    using oid by (simp add: ex_defs timestamp_defs)
  have h2: "ObjectId ex_id1 = Inr ex_id1 \<and> u_datetime_iso (?u ?own) = Given (Some ?own) \<and>
    [?d1, ?d2] = [] @ ?d1 # [?d2] \<and> doc_id ?d1 = ex_id1 \<and>
    (\<forall>x\<in>set []. doc_id x \<noteq> ex_id1) \<and>
    datetime_iso ?d1 = Some (ex_dt 2024 5 1 10 0 0) \<and>
    timestamp (ex_dt 2024 5 1 10 0 0) = timestamp (replace_second_microsecond ?own) \<and>
    \<not> (\<exists>e\<in>set [?d1, ?d2]. doc_id e \<noteq> ex_id1 \<and> status e \<noteq> Some ''canceled'' \<and>
        (\<exists>x. datetime_iso e = Some x \<and>
             timestamp x = timestamp (replace_second_microsecond ?own)))"
    using oid by (simp add: ex_defs timestamp_defs)
  have h3: "u_first_name (?u ?own) = Unset \<and> u_last_name (?u ?own) = Unset \<and>
          u_email (?u ?own) = Unset \<and> u_phone (?u ?own) = Unset \<and>
          u_location (?u ?own) = Unset \<and> u_status (?u ?own) = Unset \<and>
          u_notes (?u ?own) = Unset \<and>
          AppointmentOut ex_is_email ?d1 =
            Inr \<lparr>o_id = ex_id1, o_first_name = ''Ana'', o_last_name = ''B'',
                 o_email = ''a@x.com'', o_phone = ''0600000000'',
                 o_datetime_iso = ex_dt 2024 5 1 10 0 0, o_location = ''Mourenx'',
                 o_status = ''booked'', o_notes = None, o_created_at = Some ex_now,
                 o_updated_at = Some ex_now\<rparr>"
    by (simp add: ex_update_def ex_doc_def AppointmentOut_def ex_is_email_def)
  have trunc: "replace_second_microsecond ?own = ex_dt 2024 5 1 10 0 0"
    by (simp add: ex_dt_def replace_second_microsecond_def)
  have same: "?d1\<lparr>datetime_iso := Some (ex_dt 2024 5 1 10 0 0), updated_at := Some ex_now\<rparr> =
              ?d1\<lparr>updated_at := Some ex_now\<rparr>"
    by (simp add: ex_doc_def)
  from h1 update_conflict_excludes_self [of ex_id1 ex_id1 "?u ?clash" ?clash "[?d1, ?d2]"
       ex_is_email ex_now]
  have c1: "update_appointment ex_is_email ex_now [?d1, ?d2] ex_id1 (?u ?clash) =
              (Inl (HTTPException 409), [?d1, ?d2])"
    by blast
  from h2 h3 update_conflict_excludes_self [of ex_id1 ex_id1 "?u ?own" ?own "[?d1, ?d2]"
       ex_is_email ex_now "[]" ?d1 "[?d2]" "ex_dt 2024 5 1 10 0 0"]
  have c2: "update_appointment ex_is_email ex_now [?d1, ?d2] ex_id1 (?u ?own) =
     (Inr (\<lparr>o_id = ex_id1, o_first_name = ''Ana'', o_last_name = ''B'',
                 o_email = ''a@x.com'', o_phone = ''0600000000'',
                 o_datetime_iso = ex_dt 2024 5 1 10 0 0, o_location = ''Mourenx'',
                 o_status = ''booked'', o_notes = None, o_created_at = Some ex_now,
                 o_updated_at = Some ex_now\<rparr>
            \<lparr>o_datetime_iso := replace_second_microsecond ?own, o_updated_at := Some ex_now\<rparr>),
      [] @ ?d1\<lparr>datetime_iso := Some (replace_second_microsecond ?own),
                 updated_at := Some ex_now\<rparr> # [?d2])"
    by blast
  show ?thesis
    unfolding c1 c2 trunc same by simp
qed

text \<open>
  Claim C5. A document whose status is \<^verbatim>\<open>canceled\<close> never matches the conflict query. So
  a create for a slot that only canceled documents hold succeeds, and an update to such a
  slot passes the guard and rewrites the document (and succeeds, when the payload carries
  only the datetime and the document is one \<^verbatim>\<open>AppointmentOut\<close> accepts).
\<close>

theorem canceled_never_blocks:
  "(status e = Some ''canceled'' \<longrightarrow>
      \<not> (datetime_iso_eq dt e \<and> status_ne ''canceled'' e)) \<and>
   ((\<forall>e\<in>set db. (\<exists>x. datetime_iso e = Some x \<and>
          timestamp x = timestamp (replace_second_microsecond (c_datetime_iso p)))
        \<longrightarrow> status e = Some ''canceled'') \<and>
    valid_AppointmentCreate is_email p \<and> is_oid new_id \<and> new_id \<notin> doc_id ` set db
     \<longrightarrow> (\<exists>out. create_appointment is_email now new_id db p =
                  (Inr out, db @ [created_doc now new_id p]) \<and>
                o_datetime_iso out = replace_second_microsecond (c_datetime_iso p))) \<and>
   (ObjectId appointment_id = Inr i \<and> u_datetime_iso payload = Given (Some dt) \<and>
    (\<forall>e\<in>set db. (\<exists>x. datetime_iso e = Some x \<and>
          timestamp x = timestamp (replace_second_microsecond dt))
        \<longrightarrow> status e = Some ''canceled'') \<and>
    db = pre @ d # post \<and> doc_id d = i \<and> (\<forall>x\<in>set pre. doc_id x \<noteq> i)
     \<longrightarrow> update_appointment is_email now db appointment_id payload =
           (AppointmentOut is_email (set_updates (updates payload) now d),
            pre @ set_updates (updates payload) now d # post) \<and>
         (u_first_name payload = Unset \<and> u_last_name payload = Unset \<and>
          u_email payload = Unset \<and> u_phone payload = Unset \<and>
          u_location payload = Unset \<and> u_status payload = Unset \<and>
          u_notes payload = Unset \<and> AppointmentOut is_email d = Inr out
           \<longrightarrow> update_appointment is_email now db appointment_id payload =
                 (Inr (out\<lparr>o_datetime_iso := replace_second_microsecond dt,
                            o_updated_at := Some now\<rparr>),
                  pre @ d\<lparr>datetime_iso := Some (replace_second_microsecond dt),
                           updated_at := Some now\<rparr> # post)))"
proof (intro conjI impI)
  assume "status e = Some ''canceled''"
  then show "\<not> (datetime_iso_eq dt e \<and> status_ne ''canceled'' e)"
    by (simp add: status_ne_def)
next
  assume a: "(\<forall>e\<in>set db. (\<exists>x. datetime_iso e = Some x \<and>
          timestamp x = timestamp (replace_second_microsecond (c_datetime_iso p)))
        \<longrightarrow> status e = Some ''canceled'') \<and>
    valid_AppointmentCreate is_email p \<and> is_oid new_id \<and> new_id \<notin> doc_id ` set db"
  then have "create_appointment is_email now new_id db p =
           (AppointmentOut is_email (created_doc now new_id p), db @ [created_doc now new_id p])"
    by (intro create_appointment_free) auto
  with a AppointmentOut_created_doc [of is_email p now new_id]
  show "\<exists>out. create_appointment is_email now new_id db p =
                  (Inr out, db @ [created_doc now new_id p]) \<and>
                o_datetime_iso out = replace_second_microsecond (c_datetime_iso p)"
    by auto
next
  assume a: "ObjectId appointment_id = Inr i \<and> u_datetime_iso payload = Given (Some dt) \<and>
    (\<forall>e\<in>set db. (\<exists>x. datetime_iso e = Some x \<and>
          timestamp x = timestamp (replace_second_microsecond dt))
        \<longrightarrow> status e = Some ''canceled'') \<and>
    db = pre @ d # post \<and> doc_id d = i \<and> (\<forall>x\<in>set pre. doc_id x \<noteq> i)"
  then have free: "\<forall>dt'. u_datetime_iso payload = Given (Some dt') \<longrightarrow>
           \<not> (\<exists>d\<in>set db. doc_id d \<noteq> i \<and> status d \<noteq> Some ''canceled'' \<and>
           (\<exists>x. datetime_iso d = Some x \<and>
                timestamp x = timestamp (replace_second_microsecond dt')))"
    by auto
  from a show res: "update_appointment is_email now db appointment_id payload =
           (AppointmentOut is_email (set_updates (updates payload) now d),
            pre @ set_updates (updates payload) now d # post)"
    by (intro update_appointment_pass_found [where i = i] free) simp_all
  assume b: "u_first_name payload = Unset \<and> u_last_name payload = Unset \<and>
          u_email payload = Unset \<and> u_phone payload = Unset \<and>
          u_location payload = Unset \<and> u_status payload = Unset \<and>
          u_notes payload = Unset \<and> AppointmentOut is_email d = Inr out"
  with a have "set_updates (updates payload) now d =
      d\<lparr>datetime_iso := Some (replace_second_microsecond dt), updated_at := Some now\<rparr>"
    by (intro set_updates_only_datetime) (simp_all add: updates_fields)
  with res b show "update_appointment is_email now db appointment_id payload =
                 (Inr (out\<lparr>o_datetime_iso := replace_second_microsecond dt,
                            o_updated_at := Some now\<rparr>),
                  pre @ d\<lparr>datetime_iso := Some (replace_second_microsecond dt),
                           updated_at := Some now\<rparr> # post)"
    by (simp add: AppointmentOut_datetime_update)
qed

theorem canceled_never_blocks_witness:
  "datetime_iso_eq (ex_dt 2024 5 1 10 0 0) (ex_doc ex_id1 (ex_dt 2024 5 1 10 0 0) ''canceled'') \<and>
   \<not> (datetime_iso_eq (ex_dt 2024 5 1 10 0 0)
          (ex_doc ex_id1 (ex_dt 2024 5 1 10 0 0) ''canceled'') \<and>
        status_ne ''canceled'' (ex_doc ex_id1 (ex_dt 2024 5 1 10 0 0) ''canceled'')) \<and>
   (\<exists>out. create_appointment ex_is_email ex_now ex_id2
      [ex_doc ex_id1 (ex_dt 2024 5 1 10 0 0) ''canceled''] (ex_create (ex_dt 2024 5 1 10 0 45))
     = (Inr out, [ex_doc ex_id1 (ex_dt 2024 5 1 10 0 0) ''canceled'',
                  created_doc ex_now ex_id2 (ex_create (ex_dt 2024 5 1 10 0 45))]) \<and>
     o_datetime_iso out = ex_dt 2024 5 1 10 0 0) \<and>
   (\<exists>out. update_appointment ex_is_email ex_now
      [ex_doc ex_id1 (ex_dt 2024 5 1 10 0 0) ''canceled'',
       ex_doc ex_id2 (ex_dt 2024 5 1 11 0 0) ''booked'']
      ex_id2 (ex_update (Given (Some (ex_dt 2024 5 1 10 0 30))) Unset) =
    (Inr out,
      [ex_doc ex_id1 (ex_dt 2024 5 1 10 0 0) ''canceled'',
       (ex_doc ex_id2 (ex_dt 2024 5 1 10 0 0) ''booked'')\<lparr>updated_at := Some ex_now\<rparr>]) \<and>
    o_id out = ex_id2 \<and> o_datetime_iso out = ex_dt 2024 5 1 10 0 0)"
proof -
  let ?d1 = "ex_doc ex_id1 (ex_dt 2024 5 1 10 0 0) ''canceled''"
  let ?d2 = "ex_doc ex_id2 (ex_dt 2024 5 1 11 0 0) ''booked''"
  let ?p = "ex_create (ex_dt 2024 5 1 10 0 45)"
  let ?dt = "ex_dt 2024 5 1 10 0 30"
  let ?u = "ex_update (Given (Some ?dt)) Unset"
  let ?out = "\<lparr>o_id = ex_id2, o_first_name = ''Ana'', o_last_name = ''B'',
                 o_email = ''a@x.com'', o_phone = ''0600000000'',
                 o_datetime_iso = ex_dt 2024 5 1 11 0 0, o_location = ''Mourenx'',
                 o_status = ''booked'', o_notes = None, o_created_at = Some ex_now,
                 o_updated_at = Some ex_now\<rparr>"
  have h1: "(\<forall>e\<in>set [?d1]. (\<exists>x. datetime_iso e = Some x \<and>
          timestamp x = timestamp (replace_second_microsecond (c_datetime_iso ?p)))
        \<longrightarrow> status e = Some ''canceled'') \<and>
    valid_AppointmentCreate ex_is_email ?p \<and> is_oid ex_id2 \<and> ex_id2 \<notin> doc_id ` set [?d1]"
    by (simp add: ex_defs valid_AppointmentCreate_def is_oid_def)
  have h2: "ObjectId ex_id2 = Inr ex_id2 \<and> u_datetime_iso ?u = Given (Some ?dt) \<and>
    (\<forall>e\<in>set [?d1, ?d2]. (\<exists>x. datetime_iso e = Some x \<and>
          timestamp x = timestamp (replace_second_microsecond ?dt))
        \<longrightarrow> status e = Some ''canceled'') \<and>
    [?d1, ?d2] = [?d1] @ ?d2 # [] \<and> doc_id ?d2 = ex_id2 \<and>
    (\<forall>x\<in>set [?d1]. doc_id x \<noteq> ex_id2)"
    by (simp add: ex_defs timestamp_defs ObjectId_def is_hex_char_def lower_hex_def)
  have h3: "u_first_name ?u = Unset \<and> u_last_name ?u = Unset \<and>
          u_email ?u = Unset \<and> u_phone ?u = Unset \<and>
          u_location ?u = Unset \<and> u_status ?u = Unset \<and>
          u_notes ?u = Unset \<and> AppointmentOut ex_is_email ?d2 = Inr ?out"
    by (simp add: ex_update_def ex_doc_def AppointmentOut_def ex_is_email_def)
  have trunc: "replace_second_microsecond ?dt = ex_dt 2024 5 1 10 0 0"
     "replace_second_microsecond (c_datetime_iso ?p) = ex_dt 2024 5 1 10 0 0"
    by (simp_all add: ex_dt_def ex_create_def replace_second_microsecond_def)
  have same: "?d2\<lparr>datetime_iso := Some (ex_dt 2024 5 1 10 0 0), updated_at := Some ex_now\<rparr> =
              (ex_doc ex_id2 (ex_dt 2024 5 1 10 0 0) ''booked'')\<lparr>updated_at := Some ex_now\<rparr>"
    by (simp add: ex_doc_def)
  from h1 canceled_never_blocks [of ?d1 ?dt "[?d1]" ?p ex_is_email ex_id2 ex_now]
  have c1: "\<exists>out. create_appointment ex_is_email ex_now ex_id2 [?d1] ?p =
                  (Inr out, [?d1] @ [created_doc ex_now ex_id2 ?p]) \<and>
                o_datetime_iso out = replace_second_microsecond (c_datetime_iso ?p)"
    by blast
  from h2 h3 canceled_never_blocks [of ?d1 ?dt "[?d1, ?d2]" ?p ex_is_email ex_id2 ex_now
      ex_id2 ex_id2 ?u "[?d1]" ?d2 "[]" ?out]
  have c2: "update_appointment ex_is_email ex_now [?d1, ?d2] ex_id2 ?u =
       (Inr (?out\<lparr>o_datetime_iso := replace_second_microsecond ?dt,
                            o_updated_at := Some ex_now\<rparr>),
         [?d1] @ ?d2\<lparr>datetime_iso := Some (replace_second_microsecond ?dt),
                           updated_at := Some ex_now\<rparr> # [])"
    by blast
  have h0: "status ?d1 = Some ''canceled''"
    by (simp add: ex_doc_def)
  have c0: "datetime_iso_eq (ex_dt 2024 5 1 10 0 0) ?d1"
    by (simp add: datetime_iso_eq_def ex_doc_def)
  from h0 canceled_never_blocks [of ?d1 "ex_dt 2024 5 1 10 0 0"]
  have c0': "\<not> (datetime_iso_eq (ex_dt 2024 5 1 10 0 0) ?d1 \<and> status_ne ''canceled'' ?d1)"
    by blast
  from c0 c0' c1 show ?thesis
    unfolding c2 trunc same by simp
qed

text \<open>
  Claim C9. Delete takes the first document with the given key out of the collection and
  answers \<^verbatim>\<open>{"ok": True}\<close>; with keys distinct, as the store keeps them, what is left is
  every document with another key. When no document has the key the answer is
  \<^verbatim>\<open>HTTPException(404)\<close>, when the identifier is not 24 hexadecimal characters it is
  \<^verbatim>\<open>HTTPException(400)\<close>, and in both cases the collection is as it was.
\<close>

theorem delete_removes_or_fails:
  "(ObjectId appointment_id = Inr i \<and> db = pre @ d # post \<and> doc_id d = i \<and>
    (\<forall>x\<in>set pre. doc_id x \<noteq> i)
     \<longrightarrow> delete_appointment db appointment_id = (Inr True, pre @ post)) \<and>
   (ObjectId appointment_id = Inr i \<and> i \<in> doc_id ` set db \<and> distinct (map doc_id db)
     \<longrightarrow> delete_appointment db appointment_id =
           (Inr True, filter (\<lambda>d. doc_id d \<noteq> i) db)) \<and>
   (ObjectId appointment_id = Inr i \<and> i \<notin> doc_id ` set db
     \<longrightarrow> delete_appointment db appointment_id = (Inl (HTTPException 404), db)) \<and>
   (\<not> (length appointment_id = 24 \<and> list_all is_hex_char appointment_id)
     \<longrightarrow> delete_appointment db appointment_id = (Inl (HTTPException 400), db))"
proof (intro conjI impI)
  assume "ObjectId appointment_id = Inr i \<and> db = pre @ d # post \<and> doc_id d = i \<and>
    (\<forall>x\<in>set pre. doc_id x \<noteq> i)"
  then show "delete_appointment db appointment_id = (Inr True, pre @ post)"
    by (simp add: delete_appointment_def delete_one_first)
next
  assume "ObjectId appointment_id = Inr i \<and> i \<in> doc_id ` set db \<and> distinct (map doc_id db)"
  then show "delete_appointment db appointment_id =
           (Inr True, filter (\<lambda>d. doc_id d \<noteq> i) db)"
    by (simp add: delete_appointment_def delete_one_distinct)
next
  assume "ObjectId appointment_id = Inr i \<and> i \<notin> doc_id ` set db"
  then show "delete_appointment db appointment_id = (Inl (HTTPException 404), db)"
    by (simp add: delete_appointment_def delete_one_absent)
next
  assume "\<not> (length appointment_id = 24 \<and> list_all is_hex_char appointment_id)"
  then have "ObjectId appointment_id = Inl InvalidId" by (rule ObjectId_malformed)
  then show "delete_appointment db appointment_id = (Inl (HTTPException 400), db)"
    by (simp add: delete_appointment_def)
qed

theorem delete_removes_or_fails_witness:
  "delete_appointment
     [ex_doc ex_id1 (ex_dt 2024 5 1 10 0 0) ''booked'',
      ex_doc ex_id2 (ex_dt 2024 5 1 11 0 0) ''booked''] ''65F000000000000000000001'' =
     (Inr True, [ex_doc ex_id2 (ex_dt 2024 5 1 11 0 0) ''booked'']) \<and>
   delete_appointment [ex_doc ex_id2 (ex_dt 2024 5 1 11 0 0) ''booked''] ex_id1 =
     (Inl (HTTPException 404), [ex_doc ex_id2 (ex_dt 2024 5 1 11 0 0) ''booked'']) \<and>
   delete_appointment [ex_doc ex_id2 (ex_dt 2024 5 1 11 0 0) ''booked''] ''not-a-key'' =
     (Inl (HTTPException 400), [ex_doc ex_id2 (ex_dt 2024 5 1 11 0 0) ''booked''])"
proof -
  let ?d1 = "ex_doc ex_id1 (ex_dt 2024 5 1 10 0 0) ''booked''"
  let ?d2 = "ex_doc ex_id2 (ex_dt 2024 5 1 11 0 0) ''booked''"
  let ?k = "''65F000000000000000000001''"
  have oid: "ObjectId ?k = Inr ex_id1" "ObjectId ex_id1 = Inr ex_id1"
    by (simp_all add: ex_id1_def ObjectId_def is_hex_char_def lower_hex_def)
  have h1: "ObjectId ?k = Inr ex_id1 \<and> [?d1, ?d2] = [] @ ?d1 # [?d2] \<and> doc_id ?d1 = ex_id1 \<and>
    (\<forall>x\<in>set []. doc_id x \<noteq> ex_id1)"
    using oid by (simp add: ex_doc_def)
  have h2: "ObjectId ?k = Inr ex_id1 \<and> ex_id1 \<in> doc_id ` set [?d1, ?d2] \<and>
    distinct (map doc_id [?d1, ?d2])"
    using oid by (simp add: ex_doc_def ex_id1_def ex_id2_def)
  have h3: "ObjectId ex_id1 = Inr ex_id1 \<and> ex_id1 \<notin> doc_id ` set [?d2]"
    using oid by (simp add: ex_doc_def ex_id1_def ex_id2_def)
  have h4: "\<not> (length ''not-a-key'' = 24 \<and> list_all is_hex_char ''not-a-key'')"
    by simp
  have f: "filter (\<lambda>d. doc_id d \<noteq> ex_id1) [?d1, ?d2] = [?d2]"
    by (simp add: ex_doc_def ex_id1_def ex_id2_def)
  from h1 h2 delete_removes_or_fails [of ?k ex_id1 "[?d1, ?d2]" "[]" ?d1 "[?d2]"]
  have c1: "delete_appointment [?d1, ?d2] ?k = (Inr True, [] @ [?d2])"
     and c2: "delete_appointment [?d1, ?d2] ?k =
               (Inr True, filter (\<lambda>d. doc_id d \<noteq> ex_id1) [?d1, ?d2])"
    by blast+
  from h3 delete_removes_or_fails [of ex_id1 ex_id1 "[?d2]"]
  have c3: "delete_appointment [?d2] ex_id1 = (Inl (HTTPException 404), [?d2])"
    by blast
  from h4 delete_removes_or_fails [of "''not-a-key''" _ "[?d2]"]
  have c4: "delete_appointment [?d2] ''not-a-key'' = (Inl (HTTPException 400), [?d2])"
    by blast
  from c1 c2 c3 c4 show ?thesis by (simp add: f)
qed

text \<open>
  Claim C10. When the update payload carries \<^verbatim>\<open>datetime_iso\<close> as \<^verbatim>\<open>null\<close>, neither the
  truncation nor the conflict search runs, whatever the collection holds: the document
  with the key is rewritten with \<^verbatim>\<open>datetime_iso\<close> set to \<^verbatim>\<open>null\<close> (and the response then
  fails in \<^verbatim>\<open>AppointmentOut\<close>, which requires the field). When the payload does not carry
  the field, the stored datetime stays as it was.
\<close>

theorem null_datetime_skips_guard:
  "(ObjectId appointment_id = Inr i \<and> db = pre @ d # post \<and> doc_id d = i \<and>
    (\<forall>x\<in>set pre. doc_id x \<noteq> i) \<and> u_datetime_iso payload = Given None
     \<longrightarrow> update_appointment is_email now db appointment_id payload =
           (Inl ValidationError, pre @ set_updates payload now d # post) \<and>
         datetime_iso (set_updates payload now d) = None) \<and>
   (ObjectId appointment_id = Inr i \<and> db = pre @ d # post \<and> doc_id d = i \<and>
    (\<forall>x\<in>set pre. doc_id x \<noteq> i) \<and> u_datetime_iso payload = Unset
     \<longrightarrow> update_appointment is_email now db appointment_id payload =
           (AppointmentOut is_email (set_updates payload now d),
            pre @ set_updates payload now d # post) \<and>
         datetime_iso (set_updates payload now d) = datetime_iso d)"
proof (intro conjI impI)
  assume a: "ObjectId appointment_id = Inr i \<and> db = pre @ d # post \<and> doc_id d = i \<and>
    (\<forall>x\<in>set pre. doc_id x \<noteq> i) \<and> u_datetime_iso payload = Given None"
  then show null: "datetime_iso (set_updates payload now d) = None"
    by (simp add: set_updates_def set_field_def)
  from a have "update_appointment is_email now db appointment_id payload =
           (AppointmentOut is_email (set_updates (updates payload) now d),
            pre @ set_updates (updates payload) now d # post)"
    by (intro update_appointment_pass_found [where i = i]) simp_all
  with a null show "update_appointment is_email now db appointment_id payload =
           (Inl ValidationError, pre @ set_updates payload now d # post)"
    by (simp add: updates_no_datetime AppointmentOut_null_datetime)
next
  assume a: "ObjectId appointment_id = Inr i \<and> db = pre @ d # post \<and> doc_id d = i \<and>
    (\<forall>x\<in>set pre. doc_id x \<noteq> i) \<and> u_datetime_iso payload = Unset"
  then show "datetime_iso (set_updates payload now d) = datetime_iso d"
    by (simp add: set_updates_def set_field_def)
  from a have "update_appointment is_email now db appointment_id payload =
           (AppointmentOut is_email (set_updates (updates payload) now d),
            pre @ set_updates (updates payload) now d # post)"
    by (intro update_appointment_pass_found [where i = i]) simp_all
  with a show "update_appointment is_email now db appointment_id payload =
           (AppointmentOut is_email (set_updates payload now d),
            pre @ set_updates payload now d # post)"
    by (simp add: updates_no_datetime)
qed

theorem null_datetime_skips_guard_witness:
  "update_appointment ex_is_email ex_now
     [ex_doc ex_id1 (ex_dt 2024 5 1 10 0 0) ''booked'',
      ex_doc ex_id2 (ex_dt 2024 5 1 11 0 0) ''booked''] ex_id1 (ex_update (Given None) Unset) =
     (Inl ValidationError,
      [(ex_doc ex_id1 (ex_dt 2024 5 1 10 0 0) ''booked'')
          \<lparr>datetime_iso := None, updated_at := Some ex_now\<rparr>,
       ex_doc ex_id2 (ex_dt 2024 5 1 11 0 0) ''booked'']) \<and>
   update_appointment ex_is_email ex_now
     [ex_doc ex_id1 (ex_dt 2024 5 1 10 0 0) ''booked'',
      ex_doc ex_id2 (ex_dt 2024 5 1 10 0 0) ''booked''] ex_id1
      (ex_update Unset (Given (Some ''done''))) =
     (AppointmentOut ex_is_email
        ((ex_doc ex_id1 (ex_dt 2024 5 1 10 0 0) ''done'')\<lparr>updated_at := Some ex_now\<rparr>),
      [(ex_doc ex_id1 (ex_dt 2024 5 1 10 0 0) ''done'')\<lparr>updated_at := Some ex_now\<rparr>,
       ex_doc ex_id2 (ex_dt 2024 5 1 10 0 0) ''booked''])"
proof -
  let ?d1 = "ex_doc ex_id1 (ex_dt 2024 5 1 10 0 0) ''booked''"
  let ?d2 = "ex_doc ex_id2 (ex_dt 2024 5 1 11 0 0) ''booked''"
  let ?d3 = "ex_doc ex_id2 (ex_dt 2024 5 1 10 0 0) ''booked''"
  let ?u = "ex_update (Given None) Unset"
  let ?v = "ex_update Unset (Given (Some ''done''))"
  have oid: "ObjectId ex_id1 = Inr ex_id1"
    by (simp add: ex_id1_def ObjectId_def is_hex_char_def lower_hex_def)
  have h1: "ObjectId ex_id1 = Inr ex_id1 \<and> [?d1, ?d2] = [] @ ?d1 # [?d2] \<and>
      doc_id ?d1 = ex_id1 \<and> (\<forall>x\<in>set []. doc_id x \<noteq> ex_id1) \<and>
      u_datetime_iso ?u = Given None"
    using oid by (simp add: ex_doc_def ex_update_def)
  have h2: "ObjectId ex_id1 = Inr ex_id1 \<and> [?d1, ?d3] = [] @ ?d1 # [?d3] \<and>
      doc_id ?d1 = ex_id1 \<and> (\<forall>x\<in>set []. doc_id x \<noteq> ex_id1) \<and>
      u_datetime_iso ?v = Unset"
    using oid by (simp add: ex_doc_def ex_update_def)
  have s1: "set_updates ?u ex_now ?d1 = ?d1\<lparr>datetime_iso := None, updated_at := Some ex_now\<rparr>"
    by (simp add: set_updates_def set_field_def ex_update_def)
  have s2: "set_updates ?v ex_now ?d1 =
      (ex_doc ex_id1 (ex_dt 2024 5 1 10 0 0) ''done'')\<lparr>updated_at := Some ex_now\<rparr>"
    by (simp add: set_updates_def set_field_def ex_update_def ex_doc_def)
  from h1 null_datetime_skips_guard [of ex_id1 ex_id1 "[?d1, ?d2]" "[]" ?d1 "[?d2]" ?u
      ex_is_email ex_now]
  have c1: "update_appointment ex_is_email ex_now [?d1, ?d2] ex_id1 ?u =
           (Inl ValidationError, [] @ set_updates ?u ex_now ?d1 # [?d2])"
    by blast
  from h2 null_datetime_skips_guard [of ex_id1 ex_id1 "[?d1, ?d3]" "[]" ?d1 "[?d3]" ?v
      ex_is_email ex_now]
  have c2: "update_appointment ex_is_email ex_now [?d1, ?d3] ex_id1 ?v =
           (AppointmentOut ex_is_email (set_updates ?v ex_now ?d1),
            [] @ set_updates ?v ex_now ?d1 # [?d3])"
    by blast
  show ?thesis unfolding c1 c2 s1 s2 by simp
qed

text \<open>
  Claim C8, as the code has it. A successful update rewrites exactly one document, the first
  with the given key, and leaves every other document as it was. In the rewritten
  document the key and \<^verbatim>\<open>created_at\<close> are unchanged, \<^verbatim>\<open>updated_at\<close> is the clock reading,
  a field the payload does not carry keeps its value, and a field it carries takes the
  payload's value (the datetime truncated). An identifier that is not 24 hexadecimal
  characters is answered with \<^verbatim>\<open>HTTPException(400)\<close>. A well-formed identifier that no
  document has is answered with \<^verbatim>\<open>HTTPException(404)\<close> when the conflict guard does not
  fire; the guard runs before the document is looked up, so a colliding datetime is
  answered with 409 even then (the last theorem of this claim is such a request).
\<close>

theorem partial_update_frame:
  "(update_appointment is_email now db appointment_id payload = (Inr out, db')
     \<longrightarrow> (\<exists>i pre d post. ObjectId appointment_id = Inr i \<and> db = pre @ d # post \<and>
            doc_id d = i \<and> (\<forall>x\<in>set pre. doc_id x \<noteq> i) \<and>
            db' = pre @ set_updates (updates payload) now d # post)) \<and>
   doc_id (set_updates (updates payload) now d) = doc_id d \<and>
   created_at (set_updates (updates payload) now d) = created_at d \<and>
   updated_at (set_updates (updates payload) now d) = Some now \<and>
   first_name (set_updates (updates payload) now d) =
     (case u_first_name payload of Unset \<Rightarrow> first_name d | Given v \<Rightarrow> v) \<and>
   last_name (set_updates (updates payload) now d) =
     (case u_last_name payload of Unset \<Rightarrow> last_name d | Given v \<Rightarrow> v) \<and>
   email (set_updates (updates payload) now d) =
     (case u_email payload of Unset \<Rightarrow> email d | Given v \<Rightarrow> v) \<and>
   phone (set_updates (updates payload) now d) =
     (case u_phone payload of Unset \<Rightarrow> phone d | Given v \<Rightarrow> v) \<and>
   datetime_iso (set_updates (updates payload) now d) =
     (case u_datetime_iso payload of
        Unset \<Rightarrow> datetime_iso d
      | Given v \<Rightarrow> map_option replace_second_microsecond v) \<and>
   location (set_updates (updates payload) now d) =
     (case u_location payload of Unset \<Rightarrow> location d | Given v \<Rightarrow> v) \<and>
   status (set_updates (updates payload) now d) =
     (case u_status payload of Unset \<Rightarrow> status d | Given v \<Rightarrow> v) \<and>
   doc_notes (set_updates (updates payload) now d) =
     (case u_notes payload of Unset \<Rightarrow> doc_notes d | Given v \<Rightarrow> v) \<and>
   (ObjectId appointment_id = Inr i \<and> i \<notin> doc_id ` set db \<and>
    (\<forall>dt. u_datetime_iso payload = Given (Some dt) \<longrightarrow>
       \<not> (\<exists>e\<in>set db. doc_id e \<noteq> i \<and> status e \<noteq> Some ''canceled'' \<and>
             (\<exists>x. datetime_iso e = Some x \<and>
                  timestamp x = timestamp (replace_second_microsecond dt))))
     \<longrightarrow> update_appointment is_email now db appointment_id payload =
           (Inl (HTTPException 404), db)) \<and>
   (\<not> (length appointment_id = 24 \<and> list_all is_hex_char appointment_id)
     \<longrightarrow> update_appointment is_email now db appointment_id payload =
           (Inl (HTTPException 400), db))"
proof (intro conjI impI)
  assume "update_appointment is_email now db appointment_id payload = (Inr out, db')"
  from update_appointment_success [OF this]
  show "\<exists>i pre d post. ObjectId appointment_id = Inr i \<and> db = pre @ d # post \<and>
            doc_id d = i \<and> (\<forall>x\<in>set pre. doc_id x \<noteq> i) \<and>
            db' = pre @ set_updates (updates payload) now d # post"
    by blast
next
  assume "ObjectId appointment_id = Inr i \<and> i \<notin> doc_id ` set db \<and>
    (\<forall>dt. u_datetime_iso payload = Given (Some dt) \<longrightarrow>
       \<not> (\<exists>e\<in>set db. doc_id e \<noteq> i \<and> status e \<noteq> Some ''canceled'' \<and>
             (\<exists>x. datetime_iso e = Some x \<and>
                  timestamp x = timestamp (replace_second_microsecond dt))))"
  then show "update_appointment is_email now db appointment_id payload =
           (Inl (HTTPException 404), db)"
    by (intro update_appointment_pass_absent [where i = i]) simp_all
next
  assume "\<not> (length appointment_id = 24 \<and> list_all is_hex_char appointment_id)"
  then have "ObjectId appointment_id = Inl InvalidId" by (rule ObjectId_malformed)
  then show "update_appointment is_email now db appointment_id payload =
           (Inl (HTTPException 400), db)"
    by (rule update_appointment_bad_id)
qed (simp_all add: set_updates_frame updates_fields set_field_def
       split: field.splits option.splits)


theorem partial_update_frame_witness:
  "(\<exists>i pre d post. ObjectId ex_id1 = Inr i \<and>
      [ex_doc ex_id1 (ex_dt 2024 5 1 10 0 0) ''booked'',
       ex_doc ex_id2 (ex_dt 2024 5 1 11 0 0) ''booked''] = pre @ d # post \<and>
      doc_id d = i \<and> (\<forall>x\<in>set pre. doc_id x \<noteq> i) \<and>
      [(ex_doc ex_id1 (ex_dt 2024 5 1 10 0 0) ''confirmed'')\<lparr>updated_at := Some ex_now\<rparr>,
       ex_doc ex_id2 (ex_dt 2024 5 1 11 0 0) ''booked''] =
        pre @ set_updates (updates (ex_update Unset (Given (Some ''confirmed'')))) ex_now d # post) \<and>
   update_appointment ex_is_email ex_now [ex_doc ex_id2 (ex_dt 2024 5 1 11 0 0) ''booked'']
     ex_id1 (ex_update (Given (Some (ex_dt 2024 5 1 12 0 0))) Unset) =
     (Inl (HTTPException 404), [ex_doc ex_id2 (ex_dt 2024 5 1 11 0 0) ''booked'']) \<and>
   update_appointment ex_is_email ex_now [ex_doc ex_id2 (ex_dt 2024 5 1 11 0 0) ''booked'']
     ''65f'' (ex_update Unset (Given (Some ''confirmed''))) =
     (Inl (HTTPException 400), [ex_doc ex_id2 (ex_dt 2024 5 1 11 0 0) ''booked''])"
proof -
  let ?d1 = "ex_doc ex_id1 (ex_dt 2024 5 1 10 0 0) ''booked''"
  let ?d1' = "(ex_doc ex_id1 (ex_dt 2024 5 1 10 0 0) ''confirmed'')\<lparr>updated_at := Some ex_now\<rparr>"
  let ?d2 = "ex_doc ex_id2 (ex_dt 2024 5 1 11 0 0) ''booked''"
  let ?v = "ex_update Unset (Given (Some ''confirmed''))"
  let ?w = "ex_update (Given (Some (ex_dt 2024 5 1 12 0 0))) Unset"
  let ?out = "\<lparr>o_id = ex_id1, o_first_name = ''Ana'', o_last_name = ''B'',
                 o_email = ''a@x.com'', o_phone = ''0600000000'',
                 o_datetime_iso = ex_dt 2024 5 1 10 0 0, o_location = ''Mourenx'',
                 o_status = ''confirmed'', o_notes = None, o_created_at = Some ex_now,
                 o_updated_at = Some ex_now\<rparr>"
  have oid: "ObjectId ex_id1 = Inr ex_id1"
    by (simp add: ex_id1_def ObjectId_def is_hex_char_def lower_hex_def)
  have h1: "update_appointment ex_is_email ex_now [?d1, ?d2] ex_id1 ?v = (Inr ?out, [?d1', ?d2])"
    using oid
    by (simp add: update_appointment_def ex_update_def ex_doc_def set_updates_def
        set_field_def AppointmentOut_def ex_is_email_def)
  have h2: "ObjectId ex_id1 = Inr ex_id1 \<and> ex_id1 \<notin> doc_id ` set [?d2] \<and>
    (\<forall>dt. u_datetime_iso ?w = Given (Some dt) \<longrightarrow>
       \<not> (\<exists>e\<in>set [?d2]. doc_id e \<noteq> ex_id1 \<and> status e \<noteq> Some ''canceled'' \<and>
             (\<exists>x. datetime_iso e = Some x \<and>
                  timestamp x = timestamp (replace_second_microsecond dt))))"
    using oid by (simp add: ex_defs timestamp_defs)
  have h3: "\<not> (length ''65f'' = 24 \<and> list_all is_hex_char ''65f'')"
    by simp
  from h1 partial_update_frame [of ex_is_email ex_now "[?d1, ?d2]" ex_id1 ?v ?out "[?d1', ?d2]"]
  have c1: "\<exists>i pre d post. ObjectId ex_id1 = Inr i \<and> [?d1, ?d2] = pre @ d # post \<and>
            doc_id d = i \<and> (\<forall>x\<in>set pre. doc_id x \<noteq> i) \<and>
            [?d1', ?d2] = pre @ set_updates (updates ?v) ex_now d # post"
    by blast
  from h2 partial_update_frame [of ex_is_email ex_now "[?d2]" ex_id1 ?w _ _ _ ex_id1]
  have c2: "update_appointment ex_is_email ex_now [?d2] ex_id1 ?w =
              (Inl (HTTPException 404), [?d2])"
    by blast
  from h3 partial_update_frame [of ex_is_email ex_now "[?d2]" "''65f''" ?v]
  have c3: "update_appointment ex_is_email ex_now [?d2] ''65f'' ?v =
              (Inl (HTTPException 400), [?d2])"
    by blast
  from c1 c2 c3 show ?thesis by blast
qed

theorem update_unknown_id_counterexample:
  "ObjectId ex_id2 = Inr ex_id2 \<and>
   ex_id2 \<notin> doc_id ` set [ex_doc ex_id1 (ex_dt 2024 5 1 10 0 0) ''booked''] \<and>
   update_appointment ex_is_email ex_now [ex_doc ex_id1 (ex_dt 2024 5 1 10 0 0) ''booked'']
     ex_id2 (ex_update (Given (Some (ex_dt 2024 5 1 10 0 30))) Unset) =
     (Inl (HTTPException 409), [ex_doc ex_id1 (ex_dt 2024 5 1 10 0 0) ''booked'']) \<and>
   fst (update_appointment ex_is_email ex_now [ex_doc ex_id1 (ex_dt 2024 5 1 10 0 0) ''booked'']
     ex_id2 (ex_update (Given (Some (ex_dt 2024 5 1 10 0 30))) Unset)) \<noteq>
     Inl (HTTPException 404)"
proof -
  let ?d1 = "ex_doc ex_id1 (ex_dt 2024 5 1 10 0 0) ''booked''"
  let ?dt = "ex_dt 2024 5 1 10 0 30"
  let ?u = "ex_update (Given (Some ?dt)) Unset"
  have oid: "ObjectId ex_id2 = Inr ex_id2"
    by (simp add: ex_id2_def ObjectId_def is_hex_char_def lower_hex_def)
  have absent: "ex_id2 \<notin> doc_id ` set [?d1]"
    by (simp add: ex_doc_def ex_id1_def ex_id2_def)
  have given: "u_datetime_iso ?u = Given (Some ?dt)"
    by (simp add: ex_update_def)
  have hit: "\<exists>d\<in>set [?d1]. doc_id d \<noteq> ex_id2 \<and> status d \<noteq> Some ''canceled'' \<and>
           (\<exists>x. datetime_iso d = Some x \<and>
                timestamp x = timestamp (replace_second_microsecond ?dt))"
    by (simp add: ex_defs timestamp_defs)
  have "update_appointment ex_is_email ex_now [?d1] ex_id2 ?u = (Inl (HTTPException 409), [?d1])"
    using oid given hit by (rule update_appointment_conflict)
  with oid absent show ?thesis by simp
qed

end
